theory Spec2Isabelle
  imports Complex_Main
begin

section \<open>Common values\<close>

text \<open>
  A thrown value is an \<^verbatim>\<open>Error\<close> object carrying its message, as the declared types of
  the code have it (\<^verbatim>\<open>lastError: Error | null\<close>, \<^verbatim>\<open>error as Error\<close>).
\<close>

datatype js_error = Error (message: string)

text \<open>Decimal rendering of an integer inside a template string.\<close>

function show_nat :: "nat \<Rightarrow> string" where
  "show_nat n =
     (if n < 10 then [''0123456789'' ! n]
      else show_nat (n div 10) @ [''0123456789'' ! (n mod 10)])"
  by pat_completeness auto
termination
  by (relation "measure id") auto

declare show_nat.simps [simp del]

definition show_int :: "int \<Rightarrow> string" where
  "show_int i = (if i < 0 then CHR ''-'' # show_nat (nat (- i)) else show_nat (nat i))"

section \<open>Retry executor: \<^verbatim>\<open>ScraperUtils.withRetry\<close>\<close>

text \<open>
  \<^verbatim>\<open>withRetry(operation, maxRetries, operationName)\<close> in \<^verbatim>\<open>src/utils/scraper-utils.ts\<close>.
  The operation is a closure with effects: it is a function of a state \<open>'s\<close> that returns
  its outcome (\<open>Inl\<close> the thrown error, \<open>Inr\<close> the value) and the next state. The executor's
  own actions are recorded in order: \<open>Invoked\<close> for each call of the operation and
  \<open>Slept d\<close> for each \<^verbatim>\<open>sleep(d)\<close>, \<open>d\<close> in milliseconds.
\<close>

datatype retry_event = Invoked | Slept int

type_synonym ('s, 'a) operation = "'s \<Rightarrow> (js_error + 'a) \<times> 's"

text \<open>
  The \<^verbatim>\<open>for (let attempt = 1; attempt <= maxRetries; attempt++)\<close> loop. The loop ends
  either by the \<^verbatim>\<open>return\<close> inside it (\<open>Inr\<close>) or by running out of attempts, and then it
  hands \<^verbatim>\<open>lastError\<close> to the \<^verbatim>\<open>throw\<close> after the loop (\<open>Inl\<close>).
\<close>

function withRetry_loop ::
  "('s, 'a) operation \<Rightarrow> int \<Rightarrow> int \<Rightarrow> js_error option \<Rightarrow> 's \<Rightarrow> retry_event list
     \<Rightarrow> (js_error option + 'a) \<times> 's \<times> retry_event list" where
  "withRetry_loop operation maxRetries attempt lastError s tr =
     (if attempt \<le> maxRetries then
        (case operation s of
           (Inr v, s') \<Rightarrow> (Inr v, s', tr @ [Invoked])
         | (Inl error, s') \<Rightarrow>
             (if attempt < maxRetries then
                (let delay = min (1000 * 2 ^ nat (attempt - 1)) 10000 in
                 withRetry_loop operation maxRetries (attempt + 1) (Some error) s'
                   (tr @ [Invoked, Slept delay]))
              else withRetry_loop operation maxRetries (attempt + 1) (Some error) s'
                     (tr @ [Invoked])))
      else (Inl lastError, s, tr))"
  by pat_completeness auto
termination
  by (relation "measure (\<lambda>(operation, maxRetries, attempt, lastError, s, tr).
        nat (maxRetries + 1 - attempt))") auto

declare withRetry_loop.simps [simp del]

text \<open>
  \<^verbatim>\<open>throw lastError || new Error(`${operationName} failed after ${maxRetries} attempts`)\<close>:
  the fallback error is raised only when no attempt was made.
\<close>

definition withRetry ::
  "('s, 'a) operation \<Rightarrow> int \<Rightarrow> string \<Rightarrow> 's \<Rightarrow> (js_error + 'a) \<times> 's \<times> retry_event list" where
  "withRetry operation maxRetries operationName s =
     (case withRetry_loop operation maxRetries 1 None s [] of
        (Inr v, s', tr) \<Rightarrow> (Inr v, s', tr)
      | (Inl (Some lastError), s', tr) \<Rightarrow> (Inl lastError, s', tr)
      | (Inl None, s', tr) \<Rightarrow>
          (Inl (Error (operationName @ '' failed after '' @ show_int maxRetries @ '' attempts'')),
           s', tr))"

text \<open>An operation that fails on every invocation, whatever its state.\<close>

definition always_fails :: "('s, 'a) operation \<Rightarrow> bool" where
  "always_fails operation = (\<forall>s. isl (fst (operation s)))"

text \<open>The actions of attempt \<open>k\<close> of \<open>n\<close> when the operation fails there.\<close>

definition failed_attempt :: "int \<Rightarrow> int \<Rightarrow> retry_event list" where
  "failed_attempt n k =
     Invoked # (if k < n then [Slept (min (1000 * 2 ^ nat (k - 1)) 10000)] else [])"

section \<open>Rate limiter: \<^verbatim>\<open>RateLimiter.waitIfNeeded\<close>\<close>

text \<open>
  \<^verbatim>\<open>src/utils/rate-limiter.ts\<close>. Timestamps are the integer milliseconds of
  \<^verbatim>\<open>Date.now()\<close>. \<^verbatim>\<open>Math.min(...[])\<close> is \<^verbatim>\<open>Infinity\<close>, so the wait time is a number
  that may be infinite.
\<close>

datatype js_number = Finite int | Infinity

definition Math_min :: "int list \<Rightarrow> js_number" where
  "Math_min xs = (if xs = [] then Infinity else Finite (Min (set xs)))"

fun js_plus :: "js_number \<Rightarrow> int \<Rightarrow> js_number" where
  "js_plus (Finite a) b = Finite (a + b)"
| "js_plus Infinity b = Infinity"

fun js_positive :: "js_number \<Rightarrow> bool" where
  "js_positive (Finite a) = (a > 0)"
| "js_positive Infinity = True"

record RateLimiter =
  requestsPerMinute :: int
  requests :: "int list"

text \<open>
  One call of \<^verbatim>\<open>waitIfNeeded\<close> at time \<open>now\<close>. The result is the duration handed to
  \<^verbatim>\<open>sleep\<close> (\<open>None\<close> when the call does not sleep) and the limiter after the call. The
  timestamp pushed is \<open>now\<close>, read before the sleep.
\<close>

definition waitIfNeeded :: "int \<Rightarrow> RateLimiter \<Rightarrow> js_number option \<times> RateLimiter" where
  "waitIfNeeded now this =
     (let oneMinuteAgo = now - 60000;
          this = this\<lparr>requests := filter (\<lambda>timestamp. timestamp > oneMinuteAgo) (requests this)\<rparr>;
          slept =
            (if int (length (requests this)) \<ge> requestsPerMinute this then
               (let oldestRequest = Math_min (requests this);
                    waitTime = js_plus (js_plus oldestRequest 60000) (- now)
                in if js_positive waitTime then Some waitTime else None)
             else None)
      in (slept, this\<lparr>requests := requests this @ [now]\<rparr>))"







section \<open>Scraped records: \<^verbatim>\<open>PropertyDto\<close>\<close>

text \<open>
  \<^verbatim>\<open>src/dto/export/property.dto.ts\<close>. An optional field (\<^verbatim>\<open>description?: string\<close>) is an
  option, a \<^verbatim>\<open>number\<close> a real, a \<^verbatim>\<open>Date\<close> its milliseconds. The field \<^verbatim>\<open>id\<close> is
  written \<open>id'\<close>.
\<close>

record PropertyDto =
  id' :: string
  title :: string
  description :: "string option"
  price :: real
  priceUnit :: string
  currency :: string
  pricePerPerson :: "real option"
  deposit :: "real option"
  parkingMotorcycleFee :: "real option"
  parkingScooterFee :: "real option"
  electricityRate :: "real option"
  electricityAllowanceAC :: "real option"
  electricityAllowanceFan :: "real option"
  regularRoomPrice :: "real option"
  airConditionedRoomPrice :: "real option"
  address :: string
  city :: string
  district :: string
  ward :: string
  street :: string
  country :: string
  cityCode :: "string option"
  districtId :: "real option"
  wardId :: "real option"
  streetId :: "real option"
  latitude :: "real option"
  longitude :: "real option"
  area :: real
  bedrooms :: "real option"
  bathrooms :: "real option"
  direction :: "string option"
  furnishing :: "string option"
  propertyType :: string
  roomCapacity :: "real option"
  features :: string
  amenities :: string
  images :: string
  videos :: "string option"
  virtualTour :: "string option"
  listingId :: string
  userId :: string
  postDate :: int
  expiryDate :: "int option"
  listingType :: string
  vipType :: "real option"
  verified :: "bool option"
  expired :: "bool option"
  categoryId :: "real option"
  productType :: "real option"
  source :: string
  sourceUrl :: string
  scrapedAt :: int
  nearbyLandmarks :: "string option"
  transportationInfo :: "string option"
  targetAudience :: "string option"

section \<open>Database exporter: \<^verbatim>\<open>DatabaseExporter\<close>\<close>

text \<open>
  A value handed to the database. \<^verbatim>\<open>x || d\<close> is \<open>x\<close> when \<open>x\<close> is truthy and \<open>d\<close>
  otherwise: the empty string, zero, \<^verbatim>\<open>false\<close> and a missing optional field are falsy, a
  \<^verbatim>\<open>Date\<close> is truthy.
\<close>

datatype js_value = Null | Str string | Num real | Bool bool | DateTime int

definition str_or :: "string \<Rightarrow> js_value \<Rightarrow> js_value" where
  "str_or s d = (if s \<noteq> [] then Str s else d)"

definition num_or :: "real \<Rightarrow> js_value \<Rightarrow> js_value" where
  "num_or x d = (if x \<noteq> 0 then Num x else d)"

definition opt_str_or :: "string option \<Rightarrow> js_value \<Rightarrow> js_value" where
  "opt_str_or s d = (case s of None \<Rightarrow> d | Some x \<Rightarrow> str_or x d)"

definition opt_num_or :: "real option \<Rightarrow> js_value \<Rightarrow> js_value" where
  "opt_num_or n d = (case n of None \<Rightarrow> d | Some x \<Rightarrow> num_or x d)"

definition opt_bool_or :: "bool option \<Rightarrow> js_value \<Rightarrow> js_value" where
  "opt_bool_or b d = (case b of Some True \<Rightarrow> Bool True | _ \<Rightarrow> d)"

definition opt_date_or :: "int option \<Rightarrow> js_value \<Rightarrow> js_value" where
  "opt_date_or t d = (case t of None \<Rightarrow> d | Some x \<Rightarrow> DateTime x)"

text \<open>The \<^verbatim>\<open>update\<close> object literal of the upsert in \<^verbatim>\<open>exportProperty\<close>, field by field.\<close>

definition upsert_update :: "PropertyDto \<Rightarrow> (string \<times> js_value) list" where
  "upsert_update propertyData =
     [(''title'', Str (title propertyData)),
      (''description'', opt_str_or (description propertyData) Null),
      (''price'', num_or (price propertyData) Null),
      (''priceUnit'', str_or (priceUnit propertyData) Null),
      (''currency'', str_or (currency propertyData) (Str ''VND'')),
      (''pricePerPerson'', opt_num_or (pricePerPerson propertyData) Null),
      (''deposit'', opt_num_or (deposit propertyData) Null),
      (''parkingMotorcycleFee'', opt_num_or (parkingMotorcycleFee propertyData) Null),
      (''parkingScooterFee'', opt_num_or (parkingScooterFee propertyData) Null),
      (''electricityRate'', opt_num_or (electricityRate propertyData) Null),
      (''electricityAllowanceAC'', opt_num_or (electricityAllowanceAC propertyData) Null),
      (''electricityAllowanceFan'', opt_num_or (electricityAllowanceFan propertyData) Null),
      (''regularRoomPrice'', opt_num_or (regularRoomPrice propertyData) Null),
      (''airConditionedRoomPrice'', opt_num_or (airConditionedRoomPrice propertyData) Null),
      (''address'', Str (address propertyData)),
      (''city'', Str (city propertyData)),
      (''district'', Str (district propertyData)),
      (''ward'', Str (ward propertyData)),
      (''street'', Str (street propertyData)),
      (''country'', Str (country propertyData)),
      (''cityCode'', opt_str_or (cityCode propertyData) Null),
      (''districtId'', opt_num_or (districtId propertyData) Null),
      (''wardId'', opt_num_or (wardId propertyData) Null),
      (''streetId'', opt_num_or (streetId propertyData) Null),
      (''latitude'', opt_num_or (latitude propertyData) Null),
      (''longitude'', opt_num_or (longitude propertyData) Null),
      (''area'', Num (area propertyData)),
      (''bedrooms'', opt_num_or (bedrooms propertyData) Null),
      (''bathrooms'', opt_num_or (bathrooms propertyData) Null),
      (''direction'', opt_str_or (direction propertyData) Null),
      (''furnishing'', opt_str_or (furnishing propertyData) Null),
      (''propertyType'', Str (propertyType propertyData)),
      (''roomCapacity'', opt_num_or (roomCapacity propertyData) Null),
      (''features'', Str (features propertyData)),
      (''amenities'', Str (amenities propertyData)),
      (''images'', Str (images propertyData)),
      (''videos'', opt_str_or (videos propertyData) Null),
      (''virtualTour'', opt_str_or (virtualTour propertyData) Null),
      (''listingId'', Str (listingId propertyData)),
      (''userId'', Str (userId propertyData)),
      (''postDate'', DateTime (postDate propertyData)),
      (''expiryDate'', opt_date_or (expiryDate propertyData) Null),
      (''listingType'', Str (listingType propertyData)),
      (''vipType'', opt_num_or (vipType propertyData) Null),
      (''verified'', opt_bool_or (verified propertyData) Null),
      (''expired'', opt_bool_or (expired propertyData) Null),
      (''categoryId'', opt_num_or (categoryId propertyData) Null),
      (''productType'', opt_num_or (productType propertyData) Null),
      (''source'', Str (source propertyData)),
      (''scrapedAt'', DateTime (scrapedAt propertyData)),
      (''nearbyLandmarks'', opt_str_or (nearbyLandmarks propertyData) Null),
      (''transportationInfo'', opt_str_or (transportationInfo propertyData) Null),
      (''targetAudience'', opt_str_or (targetAudience propertyData) Null),
      (''isActive'', Bool True)]"

text \<open>The \<^verbatim>\<open>create\<close> object literal: the same fields, and \<^verbatim>\<open>sourceUrl\<close> after \<^verbatim>\<open>source\<close>.\<close>

definition upsert_create :: "PropertyDto \<Rightarrow> (string \<times> js_value) list" where
  "upsert_create propertyData =
     [(''title'', Str (title propertyData)),
      (''description'', opt_str_or (description propertyData) Null),
      (''price'', num_or (price propertyData) Null),
      (''priceUnit'', str_or (priceUnit propertyData) Null),
      (''currency'', str_or (currency propertyData) (Str ''VND'')),
      (''pricePerPerson'', opt_num_or (pricePerPerson propertyData) Null),
      (''deposit'', opt_num_or (deposit propertyData) Null),
      (''parkingMotorcycleFee'', opt_num_or (parkingMotorcycleFee propertyData) Null),
      (''parkingScooterFee'', opt_num_or (parkingScooterFee propertyData) Null),
      (''electricityRate'', opt_num_or (electricityRate propertyData) Null),
      (''electricityAllowanceAC'', opt_num_or (electricityAllowanceAC propertyData) Null),
      (''electricityAllowanceFan'', opt_num_or (electricityAllowanceFan propertyData) Null),
      (''regularRoomPrice'', opt_num_or (regularRoomPrice propertyData) Null),
      (''airConditionedRoomPrice'', opt_num_or (airConditionedRoomPrice propertyData) Null),
      (''address'', Str (address propertyData)),
      (''city'', Str (city propertyData)),
      (''district'', Str (district propertyData)),
      (''ward'', Str (ward propertyData)),
      (''street'', Str (street propertyData)),
      (''country'', Str (country propertyData)),
      (''cityCode'', opt_str_or (cityCode propertyData) Null),
      (''districtId'', opt_num_or (districtId propertyData) Null),
      (''wardId'', opt_num_or (wardId propertyData) Null),
      (''streetId'', opt_num_or (streetId propertyData) Null),
      (''latitude'', opt_num_or (latitude propertyData) Null),
      (''longitude'', opt_num_or (longitude propertyData) Null),
      (''area'', Num (area propertyData)),
      (''bedrooms'', opt_num_or (bedrooms propertyData) Null),
      (''bathrooms'', opt_num_or (bathrooms propertyData) Null),
      (''direction'', opt_str_or (direction propertyData) Null),
      (''furnishing'', opt_str_or (furnishing propertyData) Null),
      (''propertyType'', Str (propertyType propertyData)),
      (''roomCapacity'', opt_num_or (roomCapacity propertyData) Null),
      (''features'', Str (features propertyData)),
      (''amenities'', Str (amenities propertyData)),
      (''images'', Str (images propertyData)),
      (''videos'', opt_str_or (videos propertyData) Null),
      (''virtualTour'', opt_str_or (virtualTour propertyData) Null),
      (''listingId'', Str (listingId propertyData)),
      (''userId'', Str (userId propertyData)),
      (''postDate'', DateTime (postDate propertyData)),
      (''expiryDate'', opt_date_or (expiryDate propertyData) Null),
      (''listingType'', Str (listingType propertyData)),
      (''vipType'', opt_num_or (vipType propertyData) Null),
      (''verified'', opt_bool_or (verified propertyData) Null),
      (''expired'', opt_bool_or (expired propertyData) Null),
      (''categoryId'', opt_num_or (categoryId propertyData) Null),
      (''productType'', opt_num_or (productType propertyData) Null),
      (''source'', Str (source propertyData)),
      (''sourceUrl'', Str (sourceUrl propertyData)),
      (''scrapedAt'', DateTime (scrapedAt propertyData)),
      (''nearbyLandmarks'', opt_str_or (nearbyLandmarks propertyData) Null),
      (''transportationInfo'', opt_str_or (transportationInfo propertyData) Null),
      (''targetAudience'', opt_str_or (targetAudience propertyData) Null),
      (''isActive'', Bool True)]"

text \<open>
  Modelled from the spec: the table \<^verbatim>\<open>scrapedProperties\<close>, whose declaration (the
  Prisma schema) is not among the sources; the record's natural key \<^verbatim>\<open>sourceUrl\<close>
  decides insert versus update. A row maps column names to values; the column \<^verbatim>\<open>id\<close> is
  filled by the database, here from a counter. \<^verbatim>\<open>upsert({where: {sourceUrl}, update, create})\<close>
  is Prisma's: when a row with that \<^verbatim>\<open>sourceUrl\<close> exists its columns named in
  \<^verbatim>\<open>update\<close> are overwritten and the row is returned, otherwise a row is created from
  \<^verbatim>\<open>create\<close>. \<open>failure\<close> is the error every query is rejected with while the database
  cannot be reached.
\<close>

type_synonym row = "string \<rightharpoonup> js_value"

record database =
  scrapedProperties :: "row list"
  next_id :: nat
  failure :: "js_error option"

definition has_sourceUrl :: "string \<Rightarrow> row \<Rightarrow> bool" where
  "has_sourceUrl key r = (r ''sourceUrl'' = Some (Str key))"

definition upsert ::
  "string \<Rightarrow> (string \<times> js_value) list \<Rightarrow> (string \<times> js_value) list \<Rightarrow> database
     \<Rightarrow> (js_error + row) \<times> database" where
  "upsert key update create db =
     (case failure db of
        Some e \<Rightarrow> (Inl e, db)
      | None \<Rightarrow>
          (case find (has_sourceUrl key) (scrapedProperties db) of
             Some r \<Rightarrow>
               (Inr (r ++ map_of update),
                db\<lparr>scrapedProperties :=
                     map (\<lambda>x. if has_sourceUrl key x then x ++ map_of update else x)
                       (scrapedProperties db)\<rparr>)
           | None \<Rightarrow>
               (let r = (map_of create)(''id'' \<mapsto> Str (show_nat (next_id db)))
                in (Inr r, db\<lparr>scrapedProperties := scrapedProperties db @ [r],
                               next_id := Suc (next_id db)\<rparr>))))"

text \<open>
  \<^verbatim>\<open>DatabaseExporter.exportProperty\<close>: the required-field check, then the upsert keyed on
  \<^verbatim>\<open>sourceUrl\<close>; an error of the upsert is logged and thrown again. The result is the
  \<^verbatim>\<open>id\<close> of the stored row.
\<close>

definition row_id :: "row \<Rightarrow> string" where
  "row_id r = (case r ''id'' of Some (Str i) \<Rightarrow> i | _ \<Rightarrow> [])"

definition DatabaseExporter_exportProperty ::
  "PropertyDto \<Rightarrow> database \<Rightarrow> (js_error + string) \<times> database" where
  "DatabaseExporter_exportProperty propertyData db =
     (if title propertyData = [] \<or> address propertyData = [] \<or> sourceUrl propertyData = [] then
        (Inl (Error ''Property missing required fields: title, address, or sourceUrl''), db)
      else
        (case upsert (sourceUrl propertyData) (upsert_update propertyData)
                (upsert_create propertyData) db of
           (Inr property, db') \<Rightarrow> (Inr (row_id property), db')
         | (Inl error, db') \<Rightarrow> (Inl error, db')))"

text \<open>
  \<^verbatim>\<open>DatabaseExporter.exportProperties\<close>: each record is exported in turn; a record whose
  export throws is skipped.
\<close>

fun DatabaseExporter_exportProperties ::
  "PropertyDto list \<Rightarrow> string list \<Rightarrow> database \<Rightarrow> string list \<times> database" where
  "DatabaseExporter_exportProperties [] propertyIds db = (propertyIds, db)"
| "DatabaseExporter_exportProperties (property # properties) propertyIds db =
     (case DatabaseExporter_exportProperty property db of
        (Inr ident, db') \<Rightarrow> DatabaseExporter_exportProperties properties (propertyIds @ [ident]) db'
      | (Inl error, db') \<Rightarrow> DatabaseExporter_exportProperties properties propertyIds db')"


text \<open>A record as the scraper produces it, and an empty reachable database.\<close>

definition sample_property :: PropertyDto where
  "sample_property =
     \<lparr>id' = ''a1b2c3d4'', title = ''Phong tro Quan 1'', description = None, price = 3.5,
      priceUnit = ''trieu/thang'', currency = ''VND'', pricePerPerson = None, deposit = Some 0,
      parkingMotorcycleFee = None, parkingScooterFee = None, electricityRate = None,
      electricityAllowanceAC = None, electricityAllowanceFan = None, regularRoomPrice = None,
      airConditionedRoomPrice = None, address = ''12 Le Loi'', city = ''Ho Chi Minh'',
      district = ''Quan 1'', ward = ''Ben Nghe'', street = ''Le Loi'', country = ''Vietnam'',
      cityCode = None, districtId = None, wardId = None, streetId = None,
      latitude = Some 10.5, longitude = None, area = 20, bedrooms = None, bathrooms = None,
      direction = None, furnishing = None, propertyType = ''room'', roomCapacity = None,
      features = ''[]'', amenities = ''[]'', images = ''[]'', videos = None, virtualTour = None,
      listingId = ''L1'', userId = ''U1'', postDate = 1000, expiryDate = None,
      listingType = ''vip'', vipType = None, verified = Some False, expired = None,
      categoryId = None, productType = None, source = ''batdongsan'',
      sourceUrl = ''https://batdongsan.com.vn/phong-tro-1'', scrapedAt = 2000,
      nearbyLandmarks = None, transportationInfo = None, targetAudience = None\<rparr>"


section \<open>Effects of the job service\<close>

text \<open>
  The job service acts on the job table, the adapter, the exporters, the log table and
  the timer. These actions are kept in a \<open>world\<close>: the table \<^verbatim>\<open>scrapingJobs\<close>, the
  in-memory map \<^verbatim>\<open>runningJobs\<close> (its keys), the clock read by \<^verbatim>\<open>new Date()\<close> and the
  ordered \<open>trace\<close> of every call made to a collaborator. A routine is a function from the
  world to its outcome (\<open>Inl\<close> the thrown error) and the next world. Console logging
  through \<^verbatim>\<open>Logger\<close> has no effect on these and is left out.
\<close>

datatype JobStatus = pending | running | completed | failed

datatype JobConfig =
  JobConfig (config_url: string) (config_websiteCode: string) (config_exporters: "string list")
    (config_createdBy: string)

datatype JobErrors = JobErrors (errors_message: string) (errors_timestamp: int)

datatype JobResult =
  JobResult (result_itemsFound: "int option") (result_itemsProcessed: "int option")
    (result_errors: "JobErrors option") (result_duration: "int option")

text \<open>
  Modelled from the spec: the table \<^verbatim>\<open>scrapingJobs\<close>, whose declaration (the Prisma
  schema) is not among the sources: a job record with its lifecycle fields under an opaque
  id. The database is taken to be reachable.
\<close>

record ScrapingJob =
  source' :: string
  status :: JobStatus
  config :: "JobConfig option"
  itemsFound :: int
  itemsProcessed :: int
  errors :: "JobErrors option"
  startedAt :: "int option"
  completedAt :: "int option"
  duration :: "int option"

record JobUpdateData =
  status' :: "JobStatus option"
  itemsFound' :: "int option"
  itemsProcessed' :: "int option"
  errors' :: "JobErrors option"
  duration' :: "int option"

datatype meta = MStr string | MList "string list"

datatype event =
    UpdateScrapingJob string JobUpdateData
  | LogScrapingEvent string string string "(string \<times> meta) list"
  | Initialize
  | GetTotalPages string
  | GetPageUrl string int
  | ScrapePropertyList string
  | ExportProperties string "PropertyDto list"
  | Sleep int
  | Cleanup

record world =
  scrapingJobs :: "string \<rightharpoonup> ScrapingJob"
  next_job :: nat
  runningJobs :: "string set"
  clock :: int
  trace :: "event list"

type_synonym 'a io = "world \<Rightarrow> (js_error + 'a) \<times> world"

definition io_return :: "'a \<Rightarrow> 'a io" where
  "io_return x w = (Inr x, w)"

definition io_throw :: "js_error \<Rightarrow> 'a io" where
  "io_throw e w = (Inl e, w)"

definition io_bind :: "'a io \<Rightarrow> ('a \<Rightarrow> 'b io) \<Rightarrow> 'b io" where
  "io_bind m f w = (case m w of (Inl e, w') \<Rightarrow> (Inl e, w') | (Inr x, w') \<Rightarrow> f x w')"

text \<open>\<^verbatim>\<open>try { m } catch (error) { h(error) }\<close>.\<close>

definition try_catch :: "'a io \<Rightarrow> (js_error \<Rightarrow> 'a io) \<Rightarrow> 'a io" where
  "try_catch m h w = (case m w of (Inl e, w') \<Rightarrow> h e w' | (Inr x, w') \<Rightarrow> (Inr x, w'))"

text \<open>
  \<^verbatim>\<open>try { m } finally { f }\<close>: \<open>f\<close> runs whatever the outcome of \<open>m\<close>; an error thrown
  by \<open>f\<close> replaces that outcome.
\<close>

definition try_finally :: "'a io \<Rightarrow> unit io \<Rightarrow> 'a io" where
  "try_finally m f w =
     (case m w of
        (outcome, w') \<Rightarrow> (case f w' of (Inl e, w'') \<Rightarrow> (Inl e, w'') | (Inr _, w'') \<Rightarrow> (outcome, w'')))"

text \<open>A call to a collaborator: the call is recorded and its outcome is the routine's.\<close>

definition invoke :: "event \<Rightarrow> js_error + 'a \<Rightarrow> 'a io" where
  "invoke ev outcome w = (outcome, w\<lparr>trace := trace w @ [ev]\<rparr>)"

text \<open>\<^verbatim>\<open>ScraperUtils.sleep(ms)\<close>: the timer fires \<open>ms\<close> milliseconds later.\<close>

definition sleep :: "int \<Rightarrow> unit io" where
  "sleep ms w = (Inr (), w\<lparr>clock := clock w + ms, trace := trace w @ [Sleep ms]\<rparr>)"

section \<open>Job store: \<^verbatim>\<open>JobManagementService\<close>\<close>

text \<open>
  \<^verbatim>\<open>createScrapingJob(source, status, config, results)\<close>: the row is created with an id
  generated by the database, here from a counter.
\<close>

definition JobManagementService_createScrapingJob ::
  "string \<Rightarrow> JobStatus \<Rightarrow> JobConfig option \<Rightarrow> JobResult option \<Rightarrow> string io" where
  "JobManagementService_createScrapingJob src st cfg results w =
     (let jobId = ''job-'' @ show_nat (next_job w);
          job = \<lparr>source' = src, status = st, config = cfg,
                 itemsFound = (case results of Some (JobResult (Some n) _ _ _) \<Rightarrow> n | _ \<Rightarrow> 0),
                 itemsProcessed = (case results of Some (JobResult _ (Some n) _ _) \<Rightarrow> n | _ \<Rightarrow> 0),
                 errors = (case results of Some (JobResult _ _ e _) \<Rightarrow> e | _ \<Rightarrow> None),
                 startedAt = (if st = running then Some (clock w) else None),
                 completedAt = (if st \<in> {completed, failed} then Some (clock w) else None),
                 duration = (case results of Some (JobResult _ _ _ (Some d)) \<Rightarrow> (if d = 0 then None else Some d)
                             | _ \<Rightarrow> None)\<rparr>
      in (Inr jobId, w\<lparr>scrapingJobs := (scrapingJobs w)(jobId \<mapsto> job), next_job := Suc (next_job w)\<rparr>))"

text \<open>
  The row after Prisma's \<^verbatim>\<open>update\<close> with \<^verbatim>\<open>data: updateData\<close>: a field that is absent
  from the data keeps its value.
\<close>

definition apply_update :: "JobUpdateData \<Rightarrow> int option \<Rightarrow> int option \<Rightarrow> ScrapingJob \<Rightarrow> ScrapingJob" where
  "apply_update updateData started finished job =
     job\<lparr>status := (case status' updateData of Some s \<Rightarrow> s | None \<Rightarrow> status job),
         itemsFound := (case itemsFound' updateData of Some n \<Rightarrow> n | None \<Rightarrow> itemsFound job),
         itemsProcessed := (case itemsProcessed' updateData of Some n \<Rightarrow> n | None \<Rightarrow> itemsProcessed job),
         errors := (case errors' updateData of Some e \<Rightarrow> Some e | None \<Rightarrow> errors job),
         duration := (case duration' updateData of Some d \<Rightarrow> Some d | None \<Rightarrow> duration job),
         startedAt := (case started of Some t \<Rightarrow> Some t | None \<Rightarrow> startedAt job),
         completedAt := (case finished of Some t \<Rightarrow> Some t | None \<Rightarrow> completedAt job)\<rparr>"

text \<open>
  \<^verbatim>\<open>updateScrapingJob(jobId, updates)\<close>: \<^verbatim>\<open>startedAt\<close> is set with status
  \<^verbatim>\<open>running\<close>, \<^verbatim>\<open>completedAt\<close> with \<^verbatim>\<open>completed\<close> or \<^verbatim>\<open>failed\<close>; Prisma's
  \<^verbatim>\<open>update\<close> rejects when no row has the id, and the error is thrown again.
\<close>

definition updateScrapingJob :: "string \<Rightarrow> JobUpdateData \<Rightarrow> unit io" where
  "updateScrapingJob jobId updates w =
     (let started = (if status' updates = Some running then Some (clock w) else None);
          finished = (if status' updates \<in> {Some completed, Some failed} then Some (clock w) else None);
          w = w\<lparr>trace := trace w @ [UpdateScrapingJob jobId updates]\<rparr>
      in case scrapingJobs w jobId of
           None \<Rightarrow> (Inl (Error ''Record to update not found.''), w)
         | Some job \<Rightarrow>
             (Inr (), w\<lparr>scrapingJobs := (scrapingJobs w)(jobId \<mapsto> apply_update updates started finished job)\<rparr>))"

text \<open>The three update objects the job service writes.\<close>

definition running_update :: JobUpdateData where
  "running_update =
     \<lparr>status' = Some running, itemsFound' = None, itemsProcessed' = None, errors' = None,
      duration' = None\<rparr>"

definition completed_update :: "int \<Rightarrow> JobUpdateData" where
  "completed_update totalProperties =
     \<lparr>status' = Some completed, itemsFound' = Some totalProperties,
      itemsProcessed' = Some totalProperties, errors' = None, duration' = None\<rparr>"

definition failed_update :: "js_error \<Rightarrow> int \<Rightarrow> JobUpdateData" where
  "failed_update error timestamp =
     \<lparr>status' = Some failed, itemsFound' = None, itemsProcessed' = None,
      errors' = Some (JobErrors (message error) timestamp), duration' = None\<rparr>"

section \<open>Log table: \<^verbatim>\<open>ScrapingLogService.logScrapingEvent\<close>\<close>

text \<open>The entry is written; a failure to write it is caught inside and never thrown.\<close>

definition logScrapingEvent :: "string \<Rightarrow> string \<Rightarrow> string \<Rightarrow> (string \<times> meta) list \<Rightarrow> unit io" where
  "logScrapingEvent level msg src metadata w =
     (Inr (), w\<lparr>trace := trace w @ [LogScrapingEvent level msg src metadata]\<rparr>)"

section \<open>Registries: \<^verbatim>\<open>ScraperFactory\<close> and \<^verbatim>\<open>ExporterFactory\<close>\<close>

text \<open>
  An adapter (\<^verbatim>\<open>IScraper\<close>) and an exporter (\<^verbatim>\<open>IExporter\<close>) are given by what each of
  their operations answers: a value or a thrown error. \<^verbatim>\<open>copy()\<close> gives an adapter that
  behaves the same.
\<close>

record IScraper =
  initialize :: "js_error option"
  getTotalPages :: "string \<Rightarrow> js_error + int"
  getPageUrl :: "string \<Rightarrow> int \<Rightarrow> js_error + string"
  scrapePropertyList :: "string \<Rightarrow> js_error + PropertyDto list"
  cleanup :: "js_error option"

record IExporter =
  getExporterType :: string
  exportProperties :: "PropertyDto list \<Rightarrow> js_error + string list"

record registries =
  ScraperFactory_scrapers :: "string \<rightharpoonup> IScraper"
  ExporterFactory_exporters :: "string \<rightharpoonup> IExporter"

definition getScraper :: "registries \<Rightarrow> string \<Rightarrow> js_error + IScraper" where
  "getScraper reg websiteCode =
     (case ScraperFactory_scrapers reg websiteCode of
        None \<Rightarrow> Inl (Error (''No scraper registered for website code: '' @ websiteCode))
      | Some scraperTemplate \<Rightarrow> Inr scraperTemplate)"

definition getExporter :: "registries \<Rightarrow> string \<Rightarrow> js_error + IExporter" where
  "getExporter reg exporterType =
     (case ExporterFactory_exporters reg exporterType of
        None \<Rightarrow> Inl (Error (''No exporter registered for type: '' @ exporterType))
      | Some exporter \<Rightarrow> Inr exporter)"

text \<open>\<^verbatim>\<open>exporterTypes.map(type => this.getExporter(type))\<close>: the first missing type throws.\<close>

fun getExporters :: "registries \<Rightarrow> string list \<Rightarrow> js_error + IExporter list" where
  "getExporters reg [] = Inr []"
| "getExporters reg (exporterType # exporterTypes) =
     (case getExporter reg exporterType of
        Inl e \<Rightarrow> Inl e
      | Inr exporter \<Rightarrow>
          (case getExporters reg exporterTypes of
             Inl e \<Rightarrow> Inl e
           | Inr rest \<Rightarrow> Inr (exporter # rest)))"

section \<open>Orchestrator: \<^verbatim>\<open>ScrapingJobService\<close>\<close>

record ScrapingJobRequest =
  url :: string
  websiteCode :: string
  exporters :: "string list"
  start :: int
  limit :: int

definition outcome_of :: "js_error option \<Rightarrow> js_error + unit" where
  "outcome_of r = (case r of None \<Rightarrow> Inr () | Some e \<Rightarrow> Inl e)"

text \<open>
  \<^verbatim>\<open>exportData(jobId, properties, exporters)\<close>: each exporter's \<^verbatim>\<open>exportProperties\<close> in
  list order, each inside its own \<^verbatim>\<open>try\<close>; the \<^verbatim>\<open>catch\<close> writes a log entry.
\<close>

fun exportData :: "string \<Rightarrow> PropertyDto list \<Rightarrow> IExporter list \<Rightarrow> unit io" where
  "exportData jobId properties [] = io_return ()"
| "exportData jobId properties (exporter # rest) =
     io_bind
       (try_catch
          (io_bind
             (invoke (ExportProperties (getExporterType exporter) properties)
                (exportProperties exporter properties))
             (\<lambda>_. io_return ()))
          (\<lambda>error.
             logScrapingEvent ''error'' (''Export failed for '' @ getExporterType exporter)
               ''job-service''
               [(''jobId'', MStr jobId), (''exporter'', MStr (getExporterType exporter)),
                (''error'', MStr (message error))]))
       (\<lambda>_. exportData jobId properties rest)"

text \<open>
  One iteration of the page loop, the \<^verbatim>\<open>try\<close> and its \<^verbatim>\<open>catch\<close>; the result is the
  value of \<^verbatim>\<open>totalProperties\<close> after it. Nothing after the addition to
  \<^verbatim>\<open>totalProperties\<close> throws, so a caught error leaves the total as it was.
\<close>

definition crawl_page ::
  "IScraper \<Rightarrow> IExporter list \<Rightarrow> string \<Rightarrow> ScrapingJobRequest \<Rightarrow> int \<Rightarrow> int \<Rightarrow> int \<Rightarrow> int io" where
  "crawl_page scraper exporterList jobId scrapingJob totalPages pageNum totalProperties =
     try_catch
       (io_bind (invoke (GetPageUrl (url scrapingJob) pageNum)
                   (getPageUrl scraper (url scrapingJob) pageNum)) (\<lambda>pageUrl.
        io_bind (invoke (ScrapePropertyList pageUrl) (scrapePropertyList scraper pageUrl))
          (\<lambda>pageProperties.
        io_bind (exportData jobId pageProperties exporterList) (\<lambda>_.
        io_bind (if pageNum < totalPages then sleep 3000 else io_return ()) (\<lambda>_.
        io_return (totalProperties + int (length pageProperties)))))))
       (\<lambda>pageError. io_return totalProperties)"

text \<open>
  \<^verbatim>\<open>for (let pageNum = start; pageNum <= totalPages && (pageNum - start + 1 <= limit); pageNum++)\<close>.
\<close>

function crawl_loop ::
  "IScraper \<Rightarrow> IExporter list \<Rightarrow> string \<Rightarrow> ScrapingJobRequest \<Rightarrow> int \<Rightarrow> int \<Rightarrow> int \<Rightarrow> int io" where
  "crawl_loop scraper exporterList jobId scrapingJob totalPages pageNum totalProperties w =
     (if pageNum \<le> totalPages \<and> pageNum - start scrapingJob + 1 \<le> limit scrapingJob then
        (case crawl_page scraper exporterList jobId scrapingJob totalPages pageNum totalProperties w of
           (Inr totalProperties', w') \<Rightarrow>
             crawl_loop scraper exporterList jobId scrapingJob totalPages (pageNum + 1)
               totalProperties' w'
         | (Inl error, w') \<Rightarrow> (Inl error, w'))
      else (Inr totalProperties, w))"
  by pat_completeness auto
termination
  by (relation "measure (\<lambda>(scraper, exporterList, jobId, scrapingJob, totalPages, pageNum,
        totalProperties, w). nat (totalPages + 1 - pageNum))") auto

declare crawl_loop.simps [simp del]

definition job_metadata :: "string \<Rightarrow> ScrapingJobRequest \<Rightarrow> (string \<times> meta) list" where
  "job_metadata jobId scrapingJob =
     [(''jobId'', MStr jobId), (''url'', MStr (url scrapingJob)),
      (''websiteCode'', MStr (websiteCode scrapingJob)),
      (''exporters'', MList (exporters scrapingJob))]"

text \<open>The \<^verbatim>\<open>try\<close> block of \<^verbatim>\<open>processScrapingJob\<close>.\<close>

definition job_try :: "IScraper \<Rightarrow> IExporter list \<Rightarrow> string \<Rightarrow> ScrapingJobRequest \<Rightarrow> unit io" where
  "job_try scraper exporterList jobId scrapingJob =
     io_bind (updateScrapingJob jobId running_update) (\<lambda>_.
     io_bind (logScrapingEvent ''info'' ''Starting scraping job'' ''job-service''
                (job_metadata jobId scrapingJob)) (\<lambda>_.
     io_bind (invoke Initialize (outcome_of (initialize scraper))) (\<lambda>_.
     io_bind (invoke (GetTotalPages (url scrapingJob)) (getTotalPages scraper (url scrapingJob)))
       (\<lambda>totalPages.
     io_bind (crawl_loop scraper exporterList jobId scrapingJob totalPages (start scrapingJob) 0)
       (\<lambda>totalProperties.
     io_bind (updateScrapingJob jobId (completed_update totalProperties)) (\<lambda>_.
     logScrapingEvent ''info'' ''Scraping job completed successfully'' ''job-service''
       (job_metadata jobId scrapingJob)))))))"

text \<open>The \<^verbatim>\<open>catch\<close> block; the timestamp of the error is the clock, not its ISO string.\<close>

definition job_catch :: "string \<Rightarrow> ScrapingJobRequest \<Rightarrow> js_error \<Rightarrow> unit io" where
  "job_catch jobId scrapingJob error =
     io_bind (\<lambda>w. updateScrapingJob jobId (failed_update error (clock w)) w) (\<lambda>_.
     logScrapingEvent ''error'' ''Scraping job failed'' ''job-service''
       (job_metadata jobId scrapingJob @ [(''error'', MStr (message error))]))"

text \<open>The \<^verbatim>\<open>finally\<close> block.\<close>

definition job_finally :: "IScraper \<Rightarrow> unit io" where
  "job_finally scraper = invoke Cleanup (outcome_of (cleanup scraper))"

text \<open>
  \<^verbatim>\<open>processScrapingJob(jobId, scrapingJob)\<close>: the exporters and the adapter are resolved
  before the \<^verbatim>\<open>try\<close>; the outcome is how the returned promise settles.
\<close>

definition processScrapingJob :: "registries \<Rightarrow> string \<Rightarrow> ScrapingJobRequest \<Rightarrow> unit io" where
  "processScrapingJob reg jobId scrapingJob =
     (case getExporters reg (exporters scrapingJob) of
        Inl e \<Rightarrow> io_throw e
      | Inr exporterList \<Rightarrow>
          (case getScraper reg (websiteCode scrapingJob) of
             Inl e \<Rightarrow> io_throw e
           | Inr scraper \<Rightarrow>
               try_finally
                 (try_catch (job_try scraper exporterList jobId scrapingJob)
                    (job_catch jobId scrapingJob))
                 (job_finally scraper)))"

text \<open>
  \<^verbatim>\<open>startBackgroundJob\<close>: the promise of \<^verbatim>\<open>processScrapingJob\<close> is stored under the job
  id, and the callback given to \<^verbatim>\<open>jobPromise.finally\<close> deletes the entry once the promise
  has settled. The result is the world after that callback, with the way the promise
  settled.
\<close>

definition startBackgroundJob ::
  "registries \<Rightarrow> string \<Rightarrow> ScrapingJobRequest \<Rightarrow> world \<Rightarrow> (js_error + unit) \<times> world" where
  "startBackgroundJob reg jobId scrapingJob w =
     (case processScrapingJob reg jobId scrapingJob w of
        (settled, w1) \<Rightarrow>
          (let w2 = w1\<lparr>runningJobs := insert jobId (runningJobs w1)\<rparr>;
               w3 = w2\<lparr>runningJobs := runningJobs w2 - {jobId}\<rparr>
           in (settled, w3)))"

text \<open>
  \<^verbatim>\<open>ScrapingJobService.createScrapingJob\<close>: the job row is created \<^verbatim>\<open>pending\<close>, the
  background job is started, the job id is returned.
\<close>

definition createScrapingJob :: "registries \<Rightarrow> ScrapingJobRequest \<Rightarrow> string io" where
  "createScrapingJob reg scrapingJob =
     io_bind (JobManagementService_createScrapingJob (websiteCode scrapingJob) pending
                (Some (JobConfig (url scrapingJob) (websiteCode scrapingJob)
                         (exporters scrapingJob) ''api'')) None) (\<lambda>jobId.
     (\<lambda>w. (Inr jobId, snd (startBackgroundJob reg jobId scrapingJob w))))"

text \<open>
  Reading a trace: the calls made between two worlds, the pages visited (the page numbers
  of the calls to \<^verbatim>\<open>getPageUrl\<close>), the page URLs fetched (the calls to
  \<^verbatim>\<open>scrapePropertyList\<close>) and the exporters called, each in order.
\<close>

definition events_of :: "world \<Rightarrow> world \<Rightarrow> event list" where
  "events_of w w' = drop (length (trace w)) (trace w')"

fun page_of :: "event \<Rightarrow> int list" where
  "page_of (GetPageUrl u p) = [p]"
| "page_of _ = []"

definition visited_pages :: "event list \<Rightarrow> int list" where
  "visited_pages evs = concat (map page_of evs)"

fun fetch_of :: "event \<Rightarrow> string list" where
  "fetch_of (ScrapePropertyList pageUrl) = [pageUrl]"
| "fetch_of _ = []"

definition fetched_urls :: "event list \<Rightarrow> string list" where
  "fetched_urls evs = concat (map fetch_of evs)"

fun export_of :: "event \<Rightarrow> string list" where
  "export_of (ExportProperties exporterType properties) = [exporterType]"
| "export_of _ = []"

definition export_calls :: "event list \<Rightarrow> string list" where
  "export_calls evs = concat (map export_of evs)"

fun status_of :: "event \<Rightarrow> JobStatus option list" where
  "status_of (UpdateScrapingJob jobId updates) = [status' updates]"
| "status_of _ = []"

text \<open>The statuses written by the calls to \<^verbatim>\<open>updateScrapingJob\<close>, in order.\<close>

definition status_updates :: "event list \<Rightarrow> JobStatus option list" where
  "status_updates evs = concat (map status_of evs)"

section \<open>What a run of the page loop produces\<close>

text \<open>
  The calls, the count and the delay of one iteration and of the whole loop, as plain
  values; the routines above are proved to produce exactly these.
\<close>

definition advance :: "int \<Rightarrow> event list \<Rightarrow> world \<Rightarrow> world" where
  "advance ms evs w = w\<lparr>clock := clock w + ms, trace := trace w @ evs\<rparr>"

definition export_failed_entry :: "string \<Rightarrow> IExporter \<Rightarrow> js_error \<Rightarrow> event" where
  "export_failed_entry jobId exporter error =
     LogScrapingEvent ''error'' (''Export failed for '' @ getExporterType exporter) ''job-service''
       [(''jobId'', MStr jobId), (''exporter'', MStr (getExporterType exporter)),
        (''error'', MStr (message error))]"

definition export_events :: "string \<Rightarrow> PropertyDto list \<Rightarrow> IExporter list \<Rightarrow> event list" where
  "export_events jobId properties exporterList =
     concat (map (\<lambda>exporter.
        ExportProperties (getExporterType exporter) properties #
          (case exportProperties exporter properties of
             Inl error \<Rightarrow> [export_failed_entry jobId exporter error]
           | Inr _ \<Rightarrow> [])) exporterList)"

text \<open>The records of page \<open>p\<close>, or \<open>None\<close> when the iteration for \<open>p\<close> throws.\<close>

definition page_fetch :: "IScraper \<Rightarrow> ScrapingJobRequest \<Rightarrow> int \<Rightarrow> PropertyDto list option" where
  "page_fetch scraper scrapingJob p =
     (case getPageUrl scraper (url scrapingJob) p of
        Inl _ \<Rightarrow> None
      | Inr pageUrl \<Rightarrow>
          (case scrapePropertyList scraper pageUrl of Inl _ \<Rightarrow> None | Inr ps \<Rightarrow> Some ps))"

definition page_events ::
  "IScraper \<Rightarrow> IExporter list \<Rightarrow> string \<Rightarrow> ScrapingJobRequest \<Rightarrow> int \<Rightarrow> int \<Rightarrow> event list" where
  "page_events scraper exporterList jobId scrapingJob totalPages p =
     GetPageUrl (url scrapingJob) p #
       (case getPageUrl scraper (url scrapingJob) p of
          Inl _ \<Rightarrow> []
        | Inr pageUrl \<Rightarrow>
            ScrapePropertyList pageUrl #
              (case scrapePropertyList scraper pageUrl of
                 Inl _ \<Rightarrow> []
               | Inr ps \<Rightarrow>
                   export_events jobId ps exporterList @
                     (if p < totalPages then [Sleep 3000] else [])))"

definition page_found :: "IScraper \<Rightarrow> ScrapingJobRequest \<Rightarrow> int \<Rightarrow> int" where
  "page_found scraper scrapingJob p =
     (case page_fetch scraper scrapingJob p of None \<Rightarrow> 0 | Some ps \<Rightarrow> int (length ps))"

definition page_delay :: "IScraper \<Rightarrow> ScrapingJobRequest \<Rightarrow> int \<Rightarrow> int \<Rightarrow> int" where
  "page_delay scraper scrapingJob totalPages p =
     (if page_fetch scraper scrapingJob p \<noteq> None \<and> p < totalPages then 3000 else 0)"

text \<open>The pages the loop visits from \<open>pageNum\<close> on.\<close>

definition loop_pages :: "ScrapingJobRequest \<Rightarrow> int \<Rightarrow> int \<Rightarrow> int list" where
  "loop_pages scrapingJob totalPages pageNum =
     [pageNum..min totalPages (start scrapingJob + limit scrapingJob - 1)]"

definition loop_events ::
  "IScraper \<Rightarrow> IExporter list \<Rightarrow> string \<Rightarrow> ScrapingJobRequest \<Rightarrow> int \<Rightarrow> int \<Rightarrow> event list" where
  "loop_events scraper exporterList jobId scrapingJob totalPages pageNum =
     concat (map (page_events scraper exporterList jobId scrapingJob totalPages)
               (loop_pages scrapingJob totalPages pageNum))"

definition loop_found :: "IScraper \<Rightarrow> ScrapingJobRequest \<Rightarrow> int \<Rightarrow> int \<Rightarrow> int" where
  "loop_found scraper scrapingJob totalPages pageNum =
     sum_list (map (page_found scraper scrapingJob) (loop_pages scrapingJob totalPages pageNum))"

definition loop_delay :: "IScraper \<Rightarrow> ScrapingJobRequest \<Rightarrow> int \<Rightarrow> int \<Rightarrow> int" where
  "loop_delay scraper scrapingJob totalPages pageNum =
     sum_list (map (page_delay scraper scrapingJob totalPages)
                 (loop_pages scrapingJob totalPages pageNum))"

text \<open>The log entries of the job service.\<close>

definition job_started_entry :: "string \<Rightarrow> ScrapingJobRequest \<Rightarrow> event" where
  "job_started_entry jobId scrapingJob =
     LogScrapingEvent ''info'' ''Starting scraping job'' ''job-service''
       (job_metadata jobId scrapingJob)"

definition job_completed_entry :: "string \<Rightarrow> ScrapingJobRequest \<Rightarrow> event" where
  "job_completed_entry jobId scrapingJob =
     LogScrapingEvent ''info'' ''Scraping job completed successfully'' ''job-service''
       (job_metadata jobId scrapingJob)"

definition job_failed_entry :: "string \<Rightarrow> ScrapingJobRequest \<Rightarrow> js_error \<Rightarrow> event" where
  "job_failed_entry jobId scrapingJob error =
     LogScrapingEvent ''error'' ''Scraping job failed'' ''job-service''
       (job_metadata jobId scrapingJob @ [(''error'', MStr (message error))])"

text \<open>The \<^verbatim>\<open>try\<close> and \<^verbatim>\<open>catch\<close> blocks of \<^verbatim>\<open>processScrapingJob\<close> together.\<close>

definition job_body :: "IScraper \<Rightarrow> IExporter list \<Rightarrow> string \<Rightarrow> ScrapingJobRequest \<Rightarrow> unit io" where
  "job_body scraper exporterList jobId scrapingJob =
     try_catch (job_try scraper exporterList jobId scrapingJob) (job_catch jobId scrapingJob)"

section \<open>The adapter for batdongsan: \<^verbatim>\<open>BSDScraper\<close>\<close>

text \<open>
  \<^verbatim>\<open>src/modules/scrapers/bsd-scraper.ts\<close>. The browser and its pages belong to
  Puppeteer; each is given by what its operations answer. \<^verbatim>\<open>cleanup\<close> closes the browser
  when there is one, with no \<^verbatim>\<open>try\<close> around the call.
\<close>

record Browser =
  close :: "js_error option"

record BSDScraper =
  browser :: "Browser option"

definition BSDScraper_cleanup :: "BSDScraper \<Rightarrow> js_error option \<times> BSDScraper" where
  "BSDScraper_cleanup this =
     (case browser this of
        None \<Rightarrow> (None, this)
      | Some b \<Rightarrow>
          (case close b of
             Some e \<Rightarrow> (Some e, this)
           | None \<Rightarrow> (None, this\<lparr>browser := None\<rparr>)))"

text \<open>
  \<^verbatim>\<open>getTotalPages(listUrl)\<close>: without a browser it throws; \<^verbatim>\<open>createPage\<close> is called
  before the \<^verbatim>\<open>try\<close>; inside it the page is loaded through the retry executor and the
  last pagination number is read; the \<^verbatim>\<open>catch\<close> answers 1 for every error of the
  \<^verbatim>\<open>try\<close>; the \<^verbatim>\<open>finally\<close> closes the page. \<open>load\<close> is the operation given to
  \<^verbatim>\<open>withRetry\<close>, on the state \<open>s\<close> of the network.
\<close>

record 's Page =
  load :: "('s, unit) operation"
  evaluate :: "js_error + int"
  page_close :: "js_error option"

definition BSDScraper_getTotalPages ::
  "BSDScraper \<Rightarrow> (js_error + 's Page) \<Rightarrow> 's \<Rightarrow> (js_error + int) \<times> 's" where
  "BSDScraper_getTotalPages this createPage s =
     (case browser this of
        None \<Rightarrow> (Inl (Error ''Browser not initialized''), s)
      | Some b \<Rightarrow>
          (case createPage of
             Inl e \<Rightarrow> (Inl e, s)
           | Inr page \<Rightarrow>
               (case withRetry (load page) 3 ''page loading'' s of
                  (loaded, s', tr) \<Rightarrow>
                    (let answer = (case loaded of
                                     Inl error \<Rightarrow> 1
                                   | Inr _ \<Rightarrow> (case evaluate page of Inl error \<Rightarrow> 1 | Inr n \<Rightarrow> n))
                     in (case page_close page of Some e \<Rightarrow> Inl e | None \<Rightarrow> Inr answer, s')))))"

text \<open>
  \<^verbatim>\<open>scrapeAllPropertiesFromFirstPage(firstListUrl, start, limit)\<close>, the page loop of the
  adapter itself, with the same bounds and the same test before the sleep. \<open>this\<close> gives
  the answers of the adapter's own \<^verbatim>\<open>getTotalPages\<close> and \<^verbatim>\<open>scrapePropertyList\<close>. The
  page URL is \<^verbatim>\<open>`${firstListUrl}/p${pageNum}`\<close>.
\<close>

definition BSDScraper_pageUrl :: "string \<Rightarrow> int \<Rightarrow> string" where
  "BSDScraper_pageUrl firstListUrl pageNum = firstListUrl @ ''/p'' @ show_int pageNum"

definition BSDScraper_page ::
  "IScraper \<Rightarrow> string \<Rightarrow> int \<Rightarrow> int \<Rightarrow> PropertyDto list \<Rightarrow> PropertyDto list io" where
  "BSDScraper_page this firstListUrl totalPages pageNum allProperties =
     try_catch
       (io_bind (invoke (ScrapePropertyList (BSDScraper_pageUrl firstListUrl pageNum))
                   (scrapePropertyList this (BSDScraper_pageUrl firstListUrl pageNum)))
          (\<lambda>pageProperties.
        io_bind (if pageNum < totalPages then sleep 3000 else io_return ()) (\<lambda>_.
        io_return (allProperties @ pageProperties))))
       (\<lambda>pageError. io_return allProperties)"

function BSDScraper_pages ::
  "IScraper \<Rightarrow> string \<Rightarrow> int \<Rightarrow> int \<Rightarrow> int \<Rightarrow> int \<Rightarrow> PropertyDto list \<Rightarrow> PropertyDto list io" where
  "BSDScraper_pages this firstListUrl start' limit' totalPages pageNum allProperties w =
     (if pageNum \<le> totalPages \<and> pageNum - start' + 1 \<le> limit' then
        (case BSDScraper_page this firstListUrl totalPages pageNum allProperties w of
           (Inr allProperties', w') \<Rightarrow>
             BSDScraper_pages this firstListUrl start' limit' totalPages (pageNum + 1)
               allProperties' w'
         | (Inl error, w') \<Rightarrow> (Inl error, w'))
      else (Inr allProperties, w))"
  by pat_completeness auto
termination
  by (relation "measure (\<lambda>(this, firstListUrl, start', limit', totalPages, pageNum,
        allProperties, w). nat (totalPages + 1 - pageNum))") auto

declare BSDScraper_pages.simps [simp del]

definition BSDScraper_scrapeAllPropertiesFromFirstPage ::
  "IScraper \<Rightarrow> string \<Rightarrow> int \<Rightarrow> int \<Rightarrow> PropertyDto list io" where
  "BSDScraper_scrapeAllPropertiesFromFirstPage this firstListUrl start' limit' =
     try_catch
       (io_bind (invoke (GetTotalPages firstListUrl) (getTotalPages this firstListUrl))
          (\<lambda>totalPages.
        BSDScraper_pages this firstListUrl start' limit' totalPages start' []))
       (\<lambda>error. invoke (ScrapePropertyList firstListUrl) (scrapePropertyList this firstListUrl))"

text \<open>The calls, the records and the delay of one iteration of that loop.\<close>

definition BSDScraper_page_events :: "IScraper \<Rightarrow> string \<Rightarrow> int \<Rightarrow> int \<Rightarrow> event list" where
  "BSDScraper_page_events this firstListUrl totalPages p =
     ScrapePropertyList (BSDScraper_pageUrl firstListUrl p) #
       (case scrapePropertyList this (BSDScraper_pageUrl firstListUrl p) of
          Inl _ \<Rightarrow> []
        | Inr ps \<Rightarrow> (if p < totalPages then [Sleep 3000] else []))"

definition BSDScraper_page_found :: "IScraper \<Rightarrow> string \<Rightarrow> int \<Rightarrow> PropertyDto list" where
  "BSDScraper_page_found this firstListUrl p =
     (case scrapePropertyList this (BSDScraper_pageUrl firstListUrl p) of
        Inl _ \<Rightarrow> []
      | Inr ps \<Rightarrow> ps)"

definition BSDScraper_page_delay :: "IScraper \<Rightarrow> string \<Rightarrow> int \<Rightarrow> int \<Rightarrow> int" where
  "BSDScraper_page_delay this firstListUrl totalPages p =
     (case scrapePropertyList this (BSDScraper_pageUrl firstListUrl p) of
        Inl _ \<Rightarrow> 0
      | Inr ps \<Rightarrow> (if p < totalPages then 3000 else 0))"

section \<open>Example adapters, exporters and jobs\<close>

definition demo_scraper :: IScraper where
  "demo_scraper =
     \<lparr>initialize = None,
      getTotalPages = (\<lambda>listUrl. Inr 5),
      getPageUrl = (\<lambda>listUrl page. Inr (listUrl @ ''/p'' @ show_int page)),
      scrapePropertyList = (\<lambda>pageUrl. Inr [sample_property]),
      cleanup = None\<rparr>"

text \<open>An adapter whose total-page discovery throws.\<close>

definition lost_scraper :: IScraper where
  "lost_scraper = demo_scraper\<lparr>getTotalPages := (\<lambda>listUrl. Inl (Error ''Navigation timeout''))\<rparr>"

text \<open>An adapter whose \<^verbatim>\<open>cleanup\<close> is the one of \<^verbatim>\<open>BSDScraper\<close> on a browser that fails to close.\<close>

definition stuck_scraper :: IScraper where
  "stuck_scraper =
     demo_scraper\<lparr>cleanup :=
       fst (BSDScraper_cleanup \<lparr>browser = Some \<lparr>close = Some (Error ''Protocol error: Target closed'')\<rparr>\<rparr>)\<rparr>"

definition database_exporter :: IExporter where
  "database_exporter =
     \<lparr>getExporterType = ''database'', exportProperties = (\<lambda>properties. Inr (map id' properties))\<rparr>"

definition json_exporter :: IExporter where
  "json_exporter =
     \<lparr>getExporterType = ''json'',
      exportProperties = (\<lambda>properties. Inl (Error ''ENOSPC: no space left on device''))\<rparr>"

definition demo_registries :: "IScraper \<Rightarrow> registries" where
  "demo_registries scraper =
     \<lparr>ScraperFactory_scrapers = [''bsd'' \<mapsto> scraper],
      ExporterFactory_exporters = [''database'' \<mapsto> database_exporter, ''json'' \<mapsto> json_exporter]\<rparr>"

definition demo_request :: ScrapingJobRequest where
  "demo_request =
     \<lparr>url = ''https://batdongsan.com.vn/cho-thue'', websiteCode = ''bsd'',
      exporters = [''database'', ''json''], start = 2, limit = 2\<rparr>"

definition demo_job :: "JobStatus \<Rightarrow> ScrapingJob" where
  "demo_job st =
     \<lparr>source' = ''bsd'', status = st, config = None, itemsFound = 0, itemsProcessed = 0,
      errors = None, startedAt = None, completedAt = None, duration = None\<rparr>"

definition demo_world :: "JobStatus \<Rightarrow> world" where
  "demo_world st =
     \<lparr>scrapingJobs = [''job-0'' \<mapsto> demo_job st], next_job = 1, runningJobs = {}, clock = 0,
      trace = []\<rparr>"

section \<open>Properties of the retry executor\<close>

lemma always_failsD:
  assumes "always_fails operation"
  obtains e s' where "operation s = (Inl e, s')"
  using assms unfolding always_fails_def
  by (metis isl_def prod.collapse)

text \<open>
  For any number of attempts: when every invocation fails, the loop runs attempts
  \<open>attempt, \<dots>, maxRetries\<close>, each one an invocation followed by its backoff delay, the
  last one by none.
\<close>

lemma withRetry_loop_all_fail_trace:
  "always_fails operation \<Longrightarrow>
   snd (snd (withRetry_loop operation maxRetries attempt lastError s tr)) =
     tr @ concat (map (failed_attempt maxRetries) [attempt..maxRetries])"
proof (induction operation maxRetries attempt lastError s tr rule: withRetry_loop.induct)
  case (1 operation maxRetries attempt lastError s tr)
  note fails = "1.prems"
  show ?case
  proof (cases "attempt \<le> maxRetries")
    case False
    then show ?thesis
      by (simp add: withRetry_loop.simps [of operation maxRetries attempt])
  next
    case le: True
    obtain e s' where op: "operation s = (Inl e, s')"
      using fails by (rule always_failsD)
    have up: "[attempt..maxRetries] = attempt # [attempt + 1..maxRetries]"
      using le by (simp add: upto_rec1)
    show ?thesis
    proof (cases "attempt < maxRetries")
      case True
      have step: "withRetry_loop operation maxRetries attempt lastError s tr =
                  withRetry_loop operation maxRetries (attempt + 1) (Some e) s'
                    (tr @ [Invoked, Slept (min (1000 * 2 ^ nat (attempt - 1)) 10000)])"
        using True op by (subst withRetry_loop.simps) (simp add: Let_def)
      have here: "failed_attempt maxRetries attempt =
                  [Invoked, Slept (min (1000 * 2 ^ nat (attempt - 1)) 10000)]"
        using True by (simp add: failed_attempt_def)
      have "snd (snd (withRetry_loop operation maxRetries (attempt + 1) (Some e) s'
                (tr @ [Invoked, Slept (min (1000 * 2 ^ nat (attempt - 1)) 10000)]))) =
            (tr @ [Invoked, Slept (min (1000 * 2 ^ nat (attempt - 1)) 10000)]) @
              concat (map (failed_attempt maxRetries) [attempt + 1..maxRetries])"
        using "1.IH"(1) [OF le op [symmetric] refl True refl fails] .
      then show ?thesis
        unfolding step up by (simp add: here)
    next
      case False
      have step: "withRetry_loop operation maxRetries attempt lastError s tr =
                  withRetry_loop operation maxRetries (attempt + 1) (Some e) s' (tr @ [Invoked])"
        using False le op by (subst withRetry_loop.simps) simp
      have here: "failed_attempt maxRetries attempt = [Invoked]"
        using False by (simp add: failed_attempt_def)
      have "snd (snd (withRetry_loop operation maxRetries (attempt + 1) (Some e) s'
                (tr @ [Invoked]))) =
            (tr @ [Invoked]) @ concat (map (failed_attempt maxRetries) [attempt + 1..maxRetries])"
        using "1.IH"(2) [OF le op [symmetric] refl False fails] .
      then show ?thesis
        unfolding step up by (simp add: here)
    qed
  qed
qed



section \<open>Properties of the rate limiter\<close>


lemma waitIfNeeded_rpm [simp]:
  "requestsPerMinute (snd (waitIfNeeded now this)) = requestsPerMinute this"
  by (simp add: waitIfNeeded_def Let_def)
















section \<open>Properties of the database exporter\<close>



lemma update_no_sourceUrl: "map_of (upsert_update p) ''sourceUrl'' = None"
  by (simp add: upsert_update_def)

lemma update_no_id: "map_of (upsert_update p) ''id'' = None"
  by (simp add: upsert_update_def)



lemma has_sourceUrl_updated [simp]:
  "has_sourceUrl key (x ++ map_of (upsert_update p)) = has_sourceUrl key x"
  by (simp add: has_sourceUrl_def map_add_def update_no_sourceUrl)

lemma row_id_updated [simp]: "row_id (x ++ map_of (upsert_update p)) = row_id x"
  by (simp add: row_id_def map_add_def update_no_id)


















section \<open>Properties of the page loop\<close>

lemma advance_advance [simp]:
  "advance b ys (advance a xs w) = advance (a + b) (xs @ ys) w"
  by (simp add: advance_def)

lemma advance_0 [simp]: "advance 0 [] w = w"
  by (simp add: advance_def)

lemma advance_fields [simp]:
  "scrapingJobs (advance a xs w) = scrapingJobs w"
  "runningJobs (advance a xs w) = runningJobs w"
  "next_job (advance a xs w) = next_job w"
  "clock (advance a xs w) = clock w + a"
  "trace (advance a xs w) = trace w @ xs"
  by (simp_all add: advance_def)

lemma invoke_advance: "invoke ev r w = (r, advance 0 [ev] w)"
  by (simp add: invoke_def advance_def)

lemma sleep_advance: "sleep ms w = (Inr (), advance ms [Sleep ms] w)"
  by (simp add: sleep_def advance_def)

lemma logScrapingEvent_advance:
  "logScrapingEvent level msg src metadata w =
     (Inr (), advance 0 [LogScrapingEvent level msg src metadata] w)"
  by (simp add: logScrapingEvent_def advance_def)

text \<open>The fan-out never throws and makes exactly the calls of \<open>export_events\<close>.\<close>

lemma exportData_advance:
  "exportData jobId properties exporterList w =
     (Inr (), advance 0 (export_events jobId properties exporterList) w)"
proof (induction exporterList arbitrary: w)
  case Nil
  show ?case
    by (simp add: io_return_def export_events_def)
next
  case (Cons exporter rest)
  show ?case
  proof (cases "exportProperties exporter properties")
    case (Inl error)
    then show ?thesis
      by (simp add: io_bind_def try_catch_def io_return_def invoke_advance
          logScrapingEvent_advance Cons.IH export_events_def export_failed_entry_def)
  next
    case (Inr ids)
    then show ?thesis
      by (simp add: io_bind_def try_catch_def io_return_def invoke_advance Cons.IH
          export_events_def)
  qed
qed

lemma crawl_page_advance:
  "crawl_page scraper exporterList jobId scrapingJob totalPages p totalProperties w =
     (Inr (totalProperties + page_found scraper scrapingJob p),
      advance (page_delay scraper scrapingJob totalPages p)
        (page_events scraper exporterList jobId scrapingJob totalPages p) w)"
proof (cases "getPageUrl scraper (url scrapingJob) p")
  case (Inl e)
  then show ?thesis
    by (simp add: crawl_page_def try_catch_def io_bind_def io_return_def invoke_advance
        page_found_def page_delay_def page_events_def page_fetch_def)
next
  case url: (Inr pageUrl)
  show ?thesis
  proof (cases "scrapePropertyList scraper pageUrl")
    case (Inl e)
    with url show ?thesis
      by (simp add: crawl_page_def try_catch_def io_bind_def io_return_def invoke_advance
          page_found_def page_delay_def page_events_def page_fetch_def)
  next
    case (Inr ps)
    with url show ?thesis
      by (simp add: crawl_page_def try_catch_def io_bind_def io_return_def invoke_advance
          exportData_advance sleep_advance
          page_found_def page_delay_def page_events_def page_fetch_def)
  qed
qed

lemma loop_pages_step:
  assumes "pageNum \<le> totalPages" and "pageNum - start scrapingJob + 1 \<le> limit scrapingJob"
  shows "loop_pages scrapingJob totalPages pageNum =
           pageNum # loop_pages scrapingJob totalPages (pageNum + 1)"
  using assms by (simp add: loop_pages_def upto_rec1)

lemma loop_pages_done:
  assumes "\<not> (pageNum \<le> totalPages \<and> pageNum - start scrapingJob + 1 \<le> limit scrapingJob)"
  shows "loop_pages scrapingJob totalPages pageNum = []"
  using assms by (auto simp: loop_pages_def)

text \<open>
  The loop never throws; it visits the pages of \<open>loop_pages\<close> in order and produces, page
  after page, the calls, the count and the delay of each.
\<close>

lemma crawl_loop_advance:
  "crawl_loop scraper exporterList jobId scrapingJob totalPages pageNum totalProperties w =
     (Inr (totalProperties + loop_found scraper scrapingJob totalPages pageNum),
      advance (loop_delay scraper scrapingJob totalPages pageNum)
        (loop_events scraper exporterList jobId scrapingJob totalPages pageNum) w)"
proof (induction scraper exporterList jobId scrapingJob totalPages pageNum totalProperties w
    rule: crawl_loop.induct)
  case (1 scraper exporterList jobId scrapingJob totalPages pageNum totalProperties w)
  show ?case
  proof (cases "pageNum \<le> totalPages \<and> pageNum - start scrapingJob + 1 \<le> limit scrapingJob")
    case False
    show ?thesis
      by (subst crawl_loop.simps)
        (simp add: False loop_pages_done [OF False] loop_found_def loop_delay_def
          loop_events_def)
  next
    case True
    then have pages: "loop_pages scrapingJob totalPages pageNum =
                      pageNum # loop_pages scrapingJob totalPages (pageNum + 1)"
      by (simp add: loop_pages_step)
    note page = crawl_page_advance [of scraper exporterList jobId scrapingJob totalPages pageNum
        totalProperties w]
    from "1.IH" [OF True page [symmetric] refl]
    have rest: "crawl_loop scraper exporterList jobId scrapingJob totalPages (pageNum + 1)
             (totalProperties + page_found scraper scrapingJob pageNum)
             (advance (page_delay scraper scrapingJob totalPages pageNum)
                (page_events scraper exporterList jobId scrapingJob totalPages pageNum) w) =
           (Inr (totalProperties + page_found scraper scrapingJob pageNum +
                   loop_found scraper scrapingJob totalPages (pageNum + 1)),
            advance (loop_delay scraper scrapingJob totalPages (pageNum + 1))
              (loop_events scraper exporterList jobId scrapingJob totalPages (pageNum + 1))
              (advance (page_delay scraper scrapingJob totalPages pageNum)
                 (page_events scraper exporterList jobId scrapingJob totalPages pageNum) w))" .
    show ?thesis
      by (subst crawl_loop.simps)
        (simp add: True page rest loop_found_def loop_delay_def loop_events_def pages)
  qed
qed

section \<open>Properties of the job store\<close>

lemma advance_store [simp]:
  "advance a xs (w\<lparr>scrapingJobs := m\<rparr>) = (advance a xs w)\<lparr>scrapingJobs := m\<rparr>"
  by (simp add: advance_def)

lemma updateScrapingJob_existing:
  assumes "scrapingJobs w jobId = Some job"
  shows "updateScrapingJob jobId updates w =
           (Inr (),
            (advance 0 [UpdateScrapingJob jobId updates] w)
              \<lparr>scrapingJobs := (scrapingJobs w)(jobId \<mapsto>
                  apply_update updates
                    (if status' updates = Some running then Some (clock w) else None)
                    (if status' updates \<in> {Some completed, Some failed} then Some (clock w) else None)
                    job)\<rparr>)"
  using assms by (simp add: updateScrapingJob_def Let_def advance_def)

lemma updateScrapingJob_missing:
  assumes "scrapingJobs w jobId = None"
  shows "updateScrapingJob jobId updates w =
           (Inl (Error ''Record to update not found.''),
            advance 0 [UpdateScrapingJob jobId updates] w)"
  using assms by (simp add: updateScrapingJob_def Let_def advance_def)

section \<open>Properties of the job service\<close>

lemma events_of_advance [simp]: "events_of w (advance a xs w) = xs"
  by (simp add: events_of_def)

lemma events_of_advance_store [simp]:
  "events_of w ((advance a xs w)\<lparr>scrapingJobs := m\<rparr>) = xs"
  by (simp add: events_of_def)

text \<open>The four ways the \<^verbatim>\<open>try\<close> and \<^verbatim>\<open>catch\<close> blocks can run.\<close>

lemma job_body_missing:
  assumes "scrapingJobs w jobId = None"
  shows "job_body scraper exporterList jobId scrapingJob w =
           (Inl (Error ''Record to update not found.''),
            advance 0
              [UpdateScrapingJob jobId running_update,
               UpdateScrapingJob jobId
                 (failed_update (Error ''Record to update not found.'') (clock w))] w)"
  using assms
  by (simp add: job_body_def job_try_def job_catch_def try_catch_def io_bind_def
      updateScrapingJob_missing)

lemma job_body_initialize_throws:
  assumes "scrapingJobs w jobId = Some job" and "initialize scraper = Some e"
  shows "job_body scraper exporterList jobId scrapingJob w =
           (Inr (),
            (advance 0
               [UpdateScrapingJob jobId running_update, job_started_entry jobId scrapingJob,
                Initialize, UpdateScrapingJob jobId (failed_update e (clock w)),
                job_failed_entry jobId scrapingJob e] w)
              \<lparr>scrapingJobs := (scrapingJobs w)(jobId \<mapsto>
                  apply_update (failed_update e (clock w)) None (Some (clock w))
                    (apply_update running_update (Some (clock w)) None job))\<rparr>)"
  using assms
  by (simp add: job_body_def job_try_def job_catch_def try_catch_def io_bind_def
      updateScrapingJob_existing logScrapingEvent_advance invoke_advance outcome_of_def
      job_started_entry_def job_failed_entry_def running_update_def failed_update_def)

lemma job_body_getTotalPages_throws:
  assumes "scrapingJobs w jobId = Some job" and "initialize scraper = None"
    and "getTotalPages scraper (url scrapingJob) = Inl e"
  shows "job_body scraper exporterList jobId scrapingJob w =
           (Inr (),
            (advance 0
               [UpdateScrapingJob jobId running_update, job_started_entry jobId scrapingJob,
                Initialize, GetTotalPages (url scrapingJob),
                UpdateScrapingJob jobId (failed_update e (clock w)),
                job_failed_entry jobId scrapingJob e] w)
              \<lparr>scrapingJobs := (scrapingJobs w)(jobId \<mapsto>
                  apply_update (failed_update e (clock w)) None (Some (clock w))
                    (apply_update running_update (Some (clock w)) None job))\<rparr>)"
  using assms
  by (simp add: job_body_def job_try_def job_catch_def try_catch_def io_bind_def
      updateScrapingJob_existing logScrapingEvent_advance invoke_advance outcome_of_def
      job_started_entry_def job_failed_entry_def running_update_def failed_update_def)

lemma job_body_completes:
  assumes "scrapingJobs w jobId = Some job" and "initialize scraper = None"
    and "getTotalPages scraper (url scrapingJob) = Inr totalPages"
  shows "job_body scraper exporterList jobId scrapingJob w =
           (Inr (),
            (advance (loop_delay scraper scrapingJob totalPages (start scrapingJob))
               ([UpdateScrapingJob jobId running_update, job_started_entry jobId scrapingJob,
                 Initialize, GetTotalPages (url scrapingJob)] @
                loop_events scraper exporterList jobId scrapingJob totalPages (start scrapingJob) @
                [UpdateScrapingJob jobId
                   (completed_update (loop_found scraper scrapingJob totalPages (start scrapingJob))),
                 job_completed_entry jobId scrapingJob]) w)
              \<lparr>scrapingJobs := (scrapingJobs w)(jobId \<mapsto>
                  apply_update
                    (completed_update (loop_found scraper scrapingJob totalPages (start scrapingJob)))
                    None
                    (Some (clock w + loop_delay scraper scrapingJob totalPages (start scrapingJob)))
                    (apply_update running_update (Some (clock w)) None job))\<rparr>)"
  using assms
  by (simp add: job_body_def job_try_def try_catch_def io_bind_def
      updateScrapingJob_existing logScrapingEvent_advance invoke_advance outcome_of_def
      crawl_loop_advance job_started_entry_def job_completed_entry_def running_update_def
      completed_update_def)

lemma processScrapingJob_resolved:
  assumes "getExporters reg (exporters scrapingJob) = Inr exporterList"
    and "getScraper reg (websiteCode scrapingJob) = Inr scraper"
  shows "processScrapingJob reg jobId scrapingJob w =
           (case job_body scraper exporterList jobId scrapingJob w of
              (outcome, w') \<Rightarrow>
                (case cleanup scraper of Some e \<Rightarrow> Inl e | None \<Rightarrow> outcome,
                 advance 0 [Cleanup] w'))"
  using assms
  by (simp add: processScrapingJob_def job_body_def try_finally_def job_finally_def
      invoke_advance outcome_of_def split: prod.splits option.splits)

section \<open>The pages visited\<close>

lemma visited_pages_append [simp]:
  "visited_pages (xs @ ys) = visited_pages xs @ visited_pages ys"
  by (simp add: visited_pages_def)

lemma fetched_urls_append [simp]:
  "fetched_urls (xs @ ys) = fetched_urls xs @ fetched_urls ys"
  by (simp add: fetched_urls_def)

lemma export_calls_append [simp]:
  "export_calls (xs @ ys) = export_calls xs @ export_calls ys"
  by (simp add: export_calls_def)

lemma reading_Nil [simp]:
  "visited_pages [] = []" "fetched_urls [] = []" "export_calls [] = []"
  by (simp_all add: visited_pages_def fetched_urls_def export_calls_def)

lemma reading_Cons [simp]:
  "visited_pages (ev # evs) = page_of ev @ visited_pages evs"
  "fetched_urls (ev # evs) = fetch_of ev @ fetched_urls evs"
  "export_calls (ev # evs) = export_of ev @ export_calls evs"
  by (simp_all add: visited_pages_def fetched_urls_def export_calls_def)

lemma export_events_reading [simp]:
  "visited_pages (export_events jobId properties exporterList) = []"
  "fetched_urls (export_events jobId properties exporterList) = []"
  "export_calls (export_events jobId properties exporterList) = map getExporterType exporterList"
  by (induction exporterList)
    (simp_all add: export_events_def export_failed_entry_def split: sum.splits)

lemma page_events_visited [simp]:
  "visited_pages (page_events scraper exporterList jobId scrapingJob totalPages p) = [p]"
  by (simp add: page_events_def split: sum.splits)


lemma page_events_exported:
  "export_calls (page_events scraper exporterList jobId scrapingJob totalPages p) =
     (case page_fetch scraper scrapingJob p of
        None \<Rightarrow> []
      | Some ps \<Rightarrow> map getExporterType exporterList)"
  by (simp add: page_events_def page_fetch_def split: sum.splits)

lemma visited_pages_concat:
  "visited_pages (concat (map f ps)) = concat (map (\<lambda>p. visited_pages (f p)) ps)"
  by (induction ps) simp_all


lemma export_calls_concat:
  "export_calls (concat (map f ps)) = concat (map (\<lambda>p. export_calls (f p)) ps)"
  by (induction ps) simp_all

lemma concat_singletons: "concat (map (\<lambda>p. [p]) ps) = ps"
  by (induction ps) simp_all

lemma loop_events_visited [simp]:
  "visited_pages (loop_events scraper exporterList jobId scrapingJob totalPages pageNum) =
     loop_pages scrapingJob totalPages pageNum"
  by (simp add: loop_events_def visited_pages_concat concat_singletons)


lemma loop_events_exported:
  "export_calls (loop_events scraper exporterList jobId scrapingJob totalPages pageNum) =
     concat (map (\<lambda>p. case page_fetch scraper scrapingJob p of
                         None \<Rightarrow> [] | Some ps \<Rightarrow> map getExporterType exporterList)
               (loop_pages scrapingJob totalPages pageNum))"
  by (simp add: loop_events_def export_calls_concat page_events_exported)

text \<open>The adapter's own page loop produces, page after page, the calls of each.\<close>

lemma BSDScraper_page_advance:
  "BSDScraper_page this firstListUrl totalPages p allProperties w =
     (Inr (allProperties @ BSDScraper_page_found this firstListUrl p),
      advance (BSDScraper_page_delay this firstListUrl totalPages p)
        (BSDScraper_page_events this firstListUrl totalPages p) w)"
  by (cases "scrapePropertyList this (BSDScraper_pageUrl firstListUrl p)")
    (simp_all add: BSDScraper_page_def try_catch_def io_bind_def io_return_def invoke_advance
      sleep_advance BSDScraper_page_found_def BSDScraper_page_delay_def
      BSDScraper_page_events_def)

lemma BSDScraper_pages_advance:
  "BSDScraper_pages this firstListUrl start' limit' totalPages pageNum allProperties w =
     (Inr (allProperties @
             concat (map (BSDScraper_page_found this firstListUrl)
                       [pageNum..min totalPages (start' + limit' - 1)])),
      advance (sum_list (map (BSDScraper_page_delay this firstListUrl totalPages)
                           [pageNum..min totalPages (start' + limit' - 1)]))
        (concat (map (BSDScraper_page_events this firstListUrl totalPages)
                   [pageNum..min totalPages (start' + limit' - 1)])) w)"
proof (induction this firstListUrl start' limit' totalPages pageNum allProperties w
    rule: BSDScraper_pages.induct)
  case (1 this firstListUrl start' limit' totalPages pageNum allProperties w)
  show ?case
  proof (cases "pageNum \<le> totalPages \<and> pageNum - start' + 1 \<le> limit'")
    case False
    then have "[pageNum..min totalPages (start' + limit' - 1)] = []"
      by auto
    then show ?thesis
      by (subst BSDScraper_pages.simps) (simp add: False)
  next
    case True
    then have pages: "[pageNum..min totalPages (start' + limit' - 1)] =
                      pageNum # [pageNum + 1..min totalPages (start' + limit' - 1)]"
      by (simp add: upto_rec1)
    note page = BSDScraper_page_advance [of this firstListUrl totalPages pageNum allProperties w]
    note rest = "1.IH" [OF True page [symmetric] refl]
    show ?thesis
      by (subst BSDScraper_pages.simps) (simp add: True page rest pages)
  qed
qed

lemma BSDScraper_page_events_fetched [simp]:
  "fetched_urls (BSDScraper_page_events this firstListUrl totalPages p) =
     [BSDScraper_pageUrl firstListUrl p]"
  by (simp add: BSDScraper_page_events_def split: sum.splits)



lemma demo_resolution:
  "getExporters (demo_registries scraper) (exporters demo_request) =
     Inr [database_exporter, json_exporter]"
  "getScraper (demo_registries scraper) (websiteCode demo_request) = Inr scraper"
  by (simp_all add: demo_registries_def demo_request_def getExporter_def getScraper_def)

lemma demo_job_found: "scrapingJobs (demo_world st) ''job-0'' = Some (demo_job st)"
  by (simp add: demo_world_def)


text \<open>
  C7, at \<open>totalPages = 5\<close>, \<open>start = 2\<close>, \<open>limit = 2\<close>: the loop stops after page 3 because
  of the limit, and the test \<^verbatim>\<open>pageNum < totalPages\<close> before the sleep compares with the
  last page of the listing, not with the last page of the job, so the 3 second delay is
  slept after page 3 as well, the last page the job visits. The adapter's own loop
  \<^verbatim>\<open>scrapeAllPropertiesFromFirstPage\<close> does the same.
\<close>

theorem crawl_loop_sleeps_after_limit_page:
  "events_of (demo_world running)
     (snd (crawl_loop demo_scraper [database_exporter] ''job-0'' demo_request 5
             (start demo_request) 0 (demo_world running))) =
     [GetPageUrl ''https://batdongsan.com.vn/cho-thue'' 2,
      ScrapePropertyList ''https://batdongsan.com.vn/cho-thue/p2'',
      ExportProperties ''database'' [sample_property],
      Sleep 3000,
      GetPageUrl ''https://batdongsan.com.vn/cho-thue'' 3,
      ScrapePropertyList ''https://batdongsan.com.vn/cho-thue/p3'',
      ExportProperties ''database'' [sample_property],
      Sleep 3000]
   \<and> events_of (demo_world running)
       (snd (BSDScraper_scrapeAllPropertiesFromFirstPage demo_scraper (url demo_request)
               (start demo_request) (limit demo_request) (demo_world running))) =
       [GetTotalPages ''https://batdongsan.com.vn/cho-thue'',
        ScrapePropertyList ''https://batdongsan.com.vn/cho-thue/p2'',
        Sleep 3000,
        ScrapePropertyList ''https://batdongsan.com.vn/cho-thue/p3'',
        Sleep 3000]"
proof -
  have pages: "loop_pages demo_request 5 (start demo_request) = [2, 3]"
    by (simp add: loop_pages_def demo_request_def upto_rec1)
  have "events_of (demo_world running)
          (snd (crawl_loop demo_scraper [database_exporter] ''job-0'' demo_request 5
                  (start demo_request) 0 (demo_world running))) =
        page_events demo_scraper [database_exporter] ''job-0'' demo_request 5 2 @
        page_events demo_scraper [database_exporter] ''job-0'' demo_request 5 3"
    by (simp add: crawl_loop_advance loop_events_def pages)
  then have orchestrator: "events_of (demo_world running)
          (snd (crawl_loop demo_scraper [database_exporter] ''job-0'' demo_request 5
                  (start demo_request) 0 (demo_world running))) =
        [GetPageUrl ''https://batdongsan.com.vn/cho-thue'' 2,
         ScrapePropertyList ''https://batdongsan.com.vn/cho-thue/p2'',
         ExportProperties ''database'' [sample_property],
         Sleep 3000,
         GetPageUrl ''https://batdongsan.com.vn/cho-thue'' 3,
         ScrapePropertyList ''https://batdongsan.com.vn/cho-thue/p3'',
         ExportProperties ''database'' [sample_property],
         Sleep 3000]"
    by (simp add: page_events_def export_events_def demo_scraper_def demo_request_def
        database_exporter_def show_int_def show_nat.simps)
  have total: "getTotalPages demo_scraper (url demo_request) = Inr 5"
    by (simp add: demo_scraper_def)
  have range: "[start demo_request..min 5 (start demo_request + limit demo_request - 1)] = [2, 3]"
    by (simp add: demo_request_def upto_rec1)
  have "events_of (demo_world running)
       (snd (BSDScraper_scrapeAllPropertiesFromFirstPage demo_scraper (url demo_request)
               (start demo_request) (limit demo_request) (demo_world running))) =
        GetTotalPages (url demo_request) #
          BSDScraper_page_events demo_scraper (url demo_request) 5 2 @
          BSDScraper_page_events demo_scraper (url demo_request) 5 3"
    by (simp add: BSDScraper_scrapeAllPropertiesFromFirstPage_def try_catch_def io_bind_def
        invoke_advance total BSDScraper_pages_advance range)
  then have adapter: "events_of (demo_world running)
       (snd (BSDScraper_scrapeAllPropertiesFromFirstPage demo_scraper (url demo_request)
               (start demo_request) (limit demo_request) (demo_world running))) =
       [GetTotalPages ''https://batdongsan.com.vn/cho-thue'',
        ScrapePropertyList ''https://batdongsan.com.vn/cho-thue/p2'',
        Sleep 3000,
        ScrapePropertyList ''https://batdongsan.com.vn/cho-thue/p3'',
        Sleep 3000]"
    by (simp add: BSDScraper_page_events_def BSDScraper_pageUrl_def demo_scraper_def
        demo_request_def show_int_def show_nat.simps)
  from orchestrator adapter show ?thesis
    by (rule conjI)
qed

section \<open>Export failures do not fail the job\<close>

lemma export_failed_entry_logged:
  assumes "exporter \<in> set exporterList" and "exportProperties exporter properties = Inl error"
  shows "export_failed_entry jobId exporter error \<in> set (export_events jobId properties exporterList)"
  using assms by (auto simp: export_events_def intro!: bexI [of _ exporter])

lemma apply_update_completed:
  "status (apply_update (completed_update n) started finished job) = completed"
  "errors (apply_update (completed_update n) started finished job) = errors job"
  "itemsFound (apply_update (completed_update n) started finished job) = n"
  "itemsProcessed (apply_update (completed_update n) started finished job) = n"
  by (simp_all add: apply_update_def completed_update_def)

lemma apply_update_running:
  "status (apply_update running_update started finished job) = running"
  "errors (apply_update running_update started finished job) = errors job"
  by (simp_all add: apply_update_def running_update_def)

lemma apply_update_failed:
  "status (apply_update (failed_update e t) started finished job) = failed"
  "errors (apply_update (failed_update e t) started finished job) = Some (JobErrors (message e) t)"
  "completedAt (apply_update (failed_update e t) started (Some t') job) = Some t'"
  by (simp_all add: apply_update_def failed_update_def)

text \<open>
  C4. The fan-out calls \<^verbatim>\<open>exportProperties\<close> of every resolved exporter, in list
  order, whether or not an earlier one threw; it never throws itself; for each exporter
  that throws it writes the log entry \<open>export_failed_entry\<close>, which carries the job id, the
  exporter's type and the error message. A job whose adapter initialises and answers
  \<open>totalPages\<close> ends with status \<^verbatim>\<open>completed\<close> whatever its exporters throw, its
  \<^verbatim>\<open>errors\<close> field as it was before the run (empty for a job just created), and every
  fetched page handed to every exporter.
\<close>

theorem exportData_isolates_failures:
  assumes "getExporters reg (exporters scrapingJob) = Inr exporterList"
    and "getScraper reg (websiteCode scrapingJob) = Inr scraper"
    and "scrapingJobs w jobId = Some job"
    and "initialize scraper = None"
    and "getTotalPages scraper (url scrapingJob) = Inr totalPages"
  shows
    "(case exportData jobId properties exporterList w0 of
        (thrown, w0') \<Rightarrow>
          thrown = Inr ()
          \<and> export_calls (events_of w0 w0') = map getExporterType exporterList
          \<and> (\<forall>exporter \<in> set exporterList. \<forall>error.
                exportProperties exporter properties = Inl error \<longrightarrow>
                export_failed_entry jobId exporter error \<in> set (events_of w0 w0'))
          \<and> scrapingJobs w0' = scrapingJobs w0)
     \<and> (case processScrapingJob reg jobId scrapingJob w of
          (settled, w') \<Rightarrow>
            (\<exists>job'. scrapingJobs w' jobId = Some job' \<and> status job' = completed
                \<and> errors job' = errors job
                \<and> itemsFound job' = loop_found scraper scrapingJob totalPages (start scrapingJob)
                \<and> itemsProcessed job' = itemsFound job')
            \<and> export_calls (events_of w w') =
                concat (map (\<lambda>p. case page_fetch scraper scrapingJob p of
                                    None \<Rightarrow> []
                                  | Some ps \<Rightarrow> map getExporterType exporterList)
                          (loop_pages scrapingJob totalPages (start scrapingJob))))"
proof (rule conjI)
  show "case exportData jobId properties exporterList w0 of
          (thrown, w0') \<Rightarrow>
            thrown = Inr ()
            \<and> export_calls (events_of w0 w0') = map getExporterType exporterList
            \<and> (\<forall>exporter \<in> set exporterList. \<forall>error.
                  exportProperties exporter properties = Inl error \<longrightarrow>
                  export_failed_entry jobId exporter error \<in> set (events_of w0 w0'))
            \<and> scrapingJobs w0' = scrapingJobs w0"
    by (simp add: exportData_advance export_failed_entry_logged)
next
  note body = job_body_completes [OF assms(3,4,5), of exporterList]
  show "case processScrapingJob reg jobId scrapingJob w of
          (settled, w') \<Rightarrow>
            (\<exists>job'. scrapingJobs w' jobId = Some job' \<and> status job' = completed
                \<and> errors job' = errors job
                \<and> itemsFound job' = loop_found scraper scrapingJob totalPages (start scrapingJob)
                \<and> itemsProcessed job' = itemsFound job')
            \<and> export_calls (events_of w w') =
                concat (map (\<lambda>p. case page_fetch scraper scrapingJob p of
                                    None \<Rightarrow> []
                                  | Some ps \<Rightarrow> map getExporterType exporterList)
                          (loop_pages scrapingJob totalPages (start scrapingJob)))"
    by (simp add: processScrapingJob_resolved [OF assms(1,2)] body apply_update_completed
        apply_update_running loop_events_exported job_started_entry_def job_completed_entry_def)
qed

theorem exportData_isolates_failures_witness:
  "getExporters (demo_registries demo_scraper) (exporters demo_request) =
     Inr [database_exporter, json_exporter]
   \<and> getScraper (demo_registries demo_scraper) (websiteCode demo_request) = Inr demo_scraper
   \<and> scrapingJobs (demo_world pending) ''job-0'' = Some (demo_job pending)
   \<and> initialize demo_scraper = None
   \<and> getTotalPages demo_scraper (url demo_request) = Inr 5
   \<and> exportProperties json_exporter [sample_property] = Inl (Error ''ENOSPC: no space left on device'')
   \<and> (case processScrapingJob (demo_registries demo_scraper) ''job-0'' demo_request
              (demo_world pending) of
         (settled, w') \<Rightarrow>
           map_option status (scrapingJobs w' ''job-0'') = Some completed
           \<and> map_option errors (scrapingJobs w' ''job-0'') = Some None
           \<and> export_calls (events_of (demo_world pending) w') =
               [''database'', ''json'', ''database'', ''json''])"
proof -
  have ad: "initialize demo_scraper = None"
    "getTotalPages demo_scraper (url demo_request) = Inr 5"
    by (simp_all add: demo_scraper_def)
  have throws: "exportProperties json_exporter [sample_property] =
                  Inl (Error ''ENOSPC: no space left on device'')"
    by (simp add: json_exporter_def)
  have pages: "loop_pages demo_request 5 (start demo_request) = [2, 3]"
    by (simp add: loop_pages_def demo_request_def upto_rec1)
  have fetch: "page_fetch demo_scraper demo_request p = Some [sample_property]" for p
    by (simp add: page_fetch_def demo_scraper_def)
  have types: "getExporterType database_exporter = ''database''"
    "getExporterType json_exporter = ''json''"
    by (simp_all add: database_exporter_def json_exporter_def)
  have none: "errors (demo_job pending) = None"
    by (simp add: demo_job_def)
  from exportData_isolates_failures [OF demo_resolution demo_job_found [of pending] ad,
      THEN conjunct2]
  have "case processScrapingJob (demo_registries demo_scraper) ''job-0'' demo_request
              (demo_world pending) of
         (settled, w') \<Rightarrow>
           map_option status (scrapingJobs w' ''job-0'') = Some completed
           \<and> map_option errors (scrapingJobs w' ''job-0'') = Some None
           \<and> export_calls (events_of (demo_world pending) w') =
               [''database'', ''json'', ''database'', ''json'']"
    by (auto simp: pages fetch types none split: prod.splits)
  with demo_resolution [of demo_scraper] demo_job_found [of pending] ad throws show ?thesis
    by simp
qed

section \<open>A failed total-page discovery fails the job\<close>

text \<open>
  The adapter of this repository never lets an exhausted retry escape: when every load
  of the listing page fails, \<^verbatim>\<open>BSDScraper.getTotalPages\<close> answers 1.
\<close>

lemma BSDScraper_getTotalPages_swallows:
  assumes "browser this = Some b" and "createPage = Inr page" and "always_fails (load page)"
    and "page_close page = None"
  shows "fst (BSDScraper_getTotalPages this createPage s) = Inr 1"
proof -
  obtain loaded s' tr where r: "withRetry (load page) 3 ''page loading'' s = (loaded, s', tr)"
    by (cases "withRetry (load page) 3 ''page loading'' s")
  obtain e1 s1 where o1: "load page s = (Inl e1, s1)"
    using assms(3) by (rule always_failsD)
  obtain e2 s2 where o2: "load page s1 = (Inl e2, s2)"
    using assms(3) by (rule always_failsD)
  obtain e3 s3 where o3: "load page s2 = (Inl e3, s3)"
    using assms(3) by (rule always_failsD)
  have "withRetry (load page) 3 ''page loading'' s =
          (Inl e3, s3, [Invoked, Slept 1000, Invoked, Slept 2000, Invoked])"
    by (simp add: withRetry_def withRetry_loop.simps o1 o2 o3 Let_def)
  with assms(1,2,4) show ?thesis
    by (simp add: BSDScraper_getTotalPages_def)
qed

text \<open>
  C8. When the adapter's \<^verbatim>\<open>getTotalPages\<close> throws, after the adapter initialised, for a
  job that is in the store: the job is stored with status \<^verbatim>\<open>failed\<close>, its \<^verbatim>\<open>errors\<close>
  field holds the message of the thrown error and the time of the failure, and
  \<^verbatim>\<open>completedAt\<close> is set; the calls made are the two status updates, the two log entries,
  \<^verbatim>\<open>initialize\<close>, \<^verbatim>\<open>getTotalPages\<close> and \<^verbatim>\<open>cleanup\<close>: no page is visited or fetched and
  no exporter is called.
\<close>

theorem getTotalPages_failure_fails_job:
  assumes "getExporters reg (exporters scrapingJob) = Inr exporterList"
    and "getScraper reg (websiteCode scrapingJob) = Inr scraper"
    and "scrapingJobs w jobId = Some job"
    and "initialize scraper = None"
    and "getTotalPages scraper (url scrapingJob) = Inl e"
  shows
    "case processScrapingJob reg jobId scrapingJob w of
       (settled, w') \<Rightarrow>
         (\<exists>job'. scrapingJobs w' jobId = Some job' \<and> status job' = failed
             \<and> errors job' = Some (JobErrors (message e) (clock w))
             \<and> completedAt job' = Some (clock w))
         \<and> events_of w w' =
             [UpdateScrapingJob jobId running_update, job_started_entry jobId scrapingJob,
              Initialize, GetTotalPages (url scrapingJob),
              UpdateScrapingJob jobId (failed_update e (clock w)),
              job_failed_entry jobId scrapingJob e, Cleanup]
         \<and> visited_pages (events_of w w') = []
         \<and> fetched_urls (events_of w w') = []
         \<and> export_calls (events_of w w') = []"
  by (simp add: processScrapingJob_resolved [OF assms(1,2)]
      job_body_getTotalPages_throws [OF assms(3,4,5)] apply_update_failed
      job_started_entry_def job_failed_entry_def)

theorem getTotalPages_failure_fails_job_witness:
  "getExporters (demo_registries lost_scraper) (exporters demo_request) =
     Inr [database_exporter, json_exporter]
   \<and> getScraper (demo_registries lost_scraper) (websiteCode demo_request) = Inr lost_scraper
   \<and> scrapingJobs (demo_world pending) ''job-0'' = Some (demo_job pending)
   \<and> initialize lost_scraper = None
   \<and> getTotalPages lost_scraper (url demo_request) = Inl (Error ''Navigation timeout'')
   \<and> (case processScrapingJob (demo_registries lost_scraper) ''job-0'' demo_request
              (demo_world pending) of
         (settled, w') \<Rightarrow>
           map_option status (scrapingJobs w' ''job-0'') = Some failed
           \<and> map_option errors (scrapingJobs w' ''job-0'') =
               Some (Some (JobErrors ''Navigation timeout'' 0))
           \<and> visited_pages (events_of (demo_world pending) w') = []
           \<and> export_calls (events_of (demo_world pending) w') = [])"
proof -
  have ad: "initialize lost_scraper = None"
    "getTotalPages lost_scraper (url demo_request) = Inl (Error ''Navigation timeout'')"
    by (simp_all add: lost_scraper_def demo_scraper_def)
  have t0: "clock (demo_world pending) = 0"
    by (simp add: demo_world_def)
  from getTotalPages_failure_fails_job [OF demo_resolution demo_job_found [of pending] ad]
  have "case processScrapingJob (demo_registries lost_scraper) ''job-0'' demo_request
              (demo_world pending) of
         (settled, w') \<Rightarrow>
           map_option status (scrapingJobs w' ''job-0'') = Some failed
           \<and> map_option errors (scrapingJobs w' ''job-0'') =
               Some (Some (JobErrors ''Navigation timeout'' 0))
           \<and> visited_pages (events_of (demo_world pending) w') = []
           \<and> export_calls (events_of (demo_world pending) w') = []"
    by (auto simp: t0 split: prod.splits)
  with demo_resolution [of lost_scraper] demo_job_found [of pending] ad show ?thesis
    by simp
qed

section \<open>Cleanup of the adapter\<close>

lemma export_events_no_cleanup: "Cleanup \<notin> set (export_events jobId properties exporterList)"
  by (auto simp: export_events_def export_failed_entry_def split: sum.splits)

lemma page_events_no_cleanup:
  "Cleanup \<notin> set (page_events scraper exporterList jobId scrapingJob totalPages p)"
  by (auto simp: page_events_def export_events_no_cleanup split: sum.splits)

lemma loop_events_no_cleanup:
  "Cleanup \<notin> set (loop_events scraper exporterList jobId scrapingJob totalPages pageNum)"
  by (auto simp: loop_events_def page_events_no_cleanup)

lemma loop_events_count_cleanup [simp]:
  "count_list (loop_events scraper exporterList jobId scrapingJob totalPages pageNum) Cleanup = 0"
  using loop_events_no_cleanup by (simp add: count_list_0_iff)

text \<open>The \<^verbatim>\<open>try\<close> and \<^verbatim>\<open>catch\<close> blocks never call \<^verbatim>\<open>cleanup\<close>.\<close>

lemma job_body_no_cleanup:
  "\<exists>evs. trace (snd (job_body scraper exporterList jobId scrapingJob w)) = trace w @ evs
         \<and> count_list evs Cleanup = 0"
proof (cases "scrapingJobs w jobId")
  case None
  then show ?thesis
    by (simp add: job_body_missing)
next
  case (Some job)
  show ?thesis
  proof (cases "initialize scraper")
    case (Some e)
    with \<open>scrapingJobs w jobId = Some job\<close> show ?thesis
      by (simp add: job_body_initialize_throws job_started_entry_def job_failed_entry_def)
  next
    case None
    show ?thesis
    proof (cases "getTotalPages scraper (url scrapingJob)")
      case (Inl e)
      with None \<open>scrapingJobs w jobId = Some job\<close> show ?thesis
        by (simp add: job_body_getTotalPages_throws job_started_entry_def job_failed_entry_def)
    next
      case (Inr totalPages)
      with None \<open>scrapingJobs w jobId = Some job\<close> show ?thesis
        by (simp add: job_body_completes job_started_entry_def job_completed_entry_def)
    qed
  qed
qed

text \<open>
  C6, as the code has it. In every run in which the exporters and the adapter were
  resolved, whatever happens in the \<^verbatim>\<open>try\<close> and \<^verbatim>\<open>catch\<close> blocks, \<^verbatim>\<open>cleanup\<close> is called
  exactly once and it is the last call of the run. An error thrown by \<^verbatim>\<open>cleanup\<close> is not
  caught: the routine rejects with it. When \<^verbatim>\<open>cleanup\<close> succeeds the routine settles as
  the \<^verbatim>\<open>try\<close> and \<^verbatim>\<open>catch\<close> blocks did.
\<close>

theorem processScrapingJob_cleanup_once:
  assumes "getExporters reg (exporters scrapingJob) = Inr exporterList"
    and "getScraper reg (websiteCode scrapingJob) = Inr scraper"
  shows
    "count_list (events_of w (snd (processScrapingJob reg jobId scrapingJob w))) Cleanup = 1
     \<and> last (events_of w (snd (processScrapingJob reg jobId scrapingJob w))) = Cleanup
     \<and> (\<forall>e. cleanup scraper = Some e \<longrightarrow>
           fst (processScrapingJob reg jobId scrapingJob w) = Inl e)
     \<and> (cleanup scraper = None \<longrightarrow>
           fst (processScrapingJob reg jobId scrapingJob w) =
             fst (job_body scraper exporterList jobId scrapingJob w))"
proof -
  obtain outcome w1 where body: "job_body scraper exporterList jobId scrapingJob w = (outcome, w1)"
    by (cases "job_body scraper exporterList jobId scrapingJob w")
  from job_body_no_cleanup [of scraper exporterList jobId scrapingJob w] body
  obtain evs where grows: "trace w1 = trace w @ evs" and quiet: "count_list evs Cleanup = 0"
    by auto
  have ev: "events_of w (advance 0 [Cleanup] w1) = evs @ [Cleanup]"
    using grows by (simp add: events_of_def)
  show ?thesis
    by (simp add: processScrapingJob_resolved [OF assms] body ev quiet)
qed

theorem processScrapingJob_cleanup_once_witness:
  "getExporters (demo_registries stuck_scraper) (exporters demo_request) =
     Inr [database_exporter, json_exporter]
   \<and> getScraper (demo_registries stuck_scraper) (websiteCode demo_request) = Inr stuck_scraper
   \<and> cleanup stuck_scraper = Some (Error ''Protocol error: Target closed'')
   \<and> count_list (events_of (demo_world pending)
        (snd (processScrapingJob (demo_registries stuck_scraper) ''job-0'' demo_request
                (demo_world pending)))) Cleanup = 1
   \<and> fst (processScrapingJob (demo_registries stuck_scraper) ''job-0'' demo_request
            (demo_world pending)) = Inl (Error ''Protocol error: Target closed'')"
proof -
  have stuck: "cleanup stuck_scraper = Some (Error ''Protocol error: Target closed'')"
    by (simp add: stuck_scraper_def BSDScraper_cleanup_def)
  from processScrapingJob_cleanup_once [OF demo_resolution [of stuck_scraper],
      where w = "demo_world pending" and jobId = "''job-0''"]
    stuck demo_resolution [of stuck_scraper]
  show ?thesis
    by simp
qed

text \<open>
  The claim C6 as it is written fails: with an adapter whose browser fails to close, the
  job is stored as \<^verbatim>\<open>completed\<close> and the routine then rejects with the error of
  \<^verbatim>\<open>cleanup\<close>; no log entry is written for it.
\<close>

theorem cleanup_error_is_raised:
  "fst (processScrapingJob (demo_registries stuck_scraper) ''job-0'' demo_request
          (demo_world pending)) = Inl (Error ''Protocol error: Target closed'')
   \<and> map_option status
        (scrapingJobs (snd (processScrapingJob (demo_registries stuck_scraper) ''job-0''
                              demo_request (demo_world pending))) ''job-0'') = Some completed
   \<and> last (trace (snd (processScrapingJob (demo_registries stuck_scraper) ''job-0''
                          demo_request (demo_world pending)))) = Cleanup"
proof -
  have stuck: "cleanup stuck_scraper = Some (Error ''Protocol error: Target closed'')"
    by (simp add: stuck_scraper_def BSDScraper_cleanup_def)
  have ad: "initialize stuck_scraper = None"
    "getTotalPages stuck_scraper (url demo_request) = Inr 5"
    by (simp_all add: stuck_scraper_def demo_scraper_def)
  show ?thesis
    by (simp add: processScrapingJob_resolved [OF demo_resolution]
        job_body_completes [OF demo_job_found ad] stuck apply_update_completed)
qed

section \<open>A job that cannot be resolved\<close>

lemma getExporters_missing:
  assumes "\<exists>exporterType \<in> set exporterTypes. ExporterFactory_exporters reg exporterType = None"
  shows "\<exists>e. getExporters reg exporterTypes = Inl e"
  using assms
proof (induction exporterTypes)
  case Nil
  then show ?case by simp
next
  case (Cons exporterType rest)
  show ?case
  proof (cases "ExporterFactory_exporters reg exporterType")
    case None
    then show ?thesis by (simp add: getExporter_def)
  next
    case (Some exporter)
    with Cons.prems have "\<exists>t \<in> set rest. ExporterFactory_exporters reg t = None"
      by auto
    from Cons.IH [OF this] Some show ?thesis
      by (auto simp: getExporter_def)
  qed
qed

lemma processScrapingJob_unresolved:
  assumes "ScraperFactory_scrapers reg (websiteCode scrapingJob) = None
           \<or> (\<exists>exporterType \<in> set (exporters scrapingJob).
                 ExporterFactory_exporters reg exporterType = None)"
  shows "\<exists>e. processScrapingJob reg jobId scrapingJob w = (Inl e, w)"
proof (cases "getExporters reg (exporters scrapingJob)")
  case (Inl e)
  then show ?thesis
    by (simp add: processScrapingJob_def io_throw_def)
next
  case (Inr exporterList)
  with assms getExporters_missing [of "exporters scrapingJob" reg]
  have "ScraperFactory_scrapers reg (websiteCode scrapingJob) = None"
    by auto
  with Inr show ?thesis
    by (simp add: processScrapingJob_def getScraper_def io_throw_def)
qed

text \<open>
  C10. When the website code or one of the exporter types of the job has no registered
  implementation, \<^verbatim>\<open>processScrapingJob\<close> throws while resolving them, before the
  \<^verbatim>\<open>try\<close>: the world is as it was, so no status update and no other call was made. After
  \<^verbatim>\<open>startBackgroundJob\<close> the job table and the trace are unchanged and the job id is not
  in \<^verbatim>\<open>runningJobs\<close>. After \<^verbatim>\<open>createScrapingJob\<close> the new job is stored \<^verbatim>\<open>pending\<close>,
  with no start time, end time or error, and it is not in \<^verbatim>\<open>runningJobs\<close>.
\<close>

theorem unresolved_job_stays_pending:
  assumes "ScraperFactory_scrapers reg (websiteCode scrapingJob) = None
           \<or> (\<exists>exporterType \<in> set (exporters scrapingJob).
                 ExporterFactory_exporters reg exporterType = None)"
  shows
    "(\<exists>e. processScrapingJob reg jobId scrapingJob w = (Inl e, w))
     \<and> (case startBackgroundJob reg jobId scrapingJob w of
          (settled, w') \<Rightarrow>
            isl settled \<and> scrapingJobs w' = scrapingJobs w \<and> trace w' = trace w
            \<and> status_updates (events_of w w') = []
            \<and> runningJobs w' = runningJobs w - {jobId})
     \<and> (case createScrapingJob reg scrapingJob w of
          (created, w') \<Rightarrow>
            created = Inr (''job-'' @ show_nat (next_job w))
            \<and> (\<exists>job. scrapingJobs w' (''job-'' @ show_nat (next_job w)) = Some job
                  \<and> status job = pending \<and> startedAt job = None \<and> completedAt job = None
                  \<and> errors job = None)
            \<and> (''job-'' @ show_nat (next_job w)) \<notin> runningJobs w'
            \<and> trace w' = trace w)"
proof (intro conjI)
  show "\<exists>e. processScrapingJob reg jobId scrapingJob w = (Inl e, w)"
    using assms by (rule processScrapingJob_unresolved)
next
  from processScrapingJob_unresolved [OF assms, of jobId w]
  obtain e where "processScrapingJob reg jobId scrapingJob w = (Inl e, w)" ..
  then show "case startBackgroundJob reg jobId scrapingJob w of
          (settled, w') \<Rightarrow>
            isl settled \<and> scrapingJobs w' = scrapingJobs w \<and> trace w' = trace w
            \<and> status_updates (events_of w w') = []
            \<and> runningJobs w' = runningJobs w - {jobId}"
    by (simp add: startBackgroundJob_def Let_def events_of_def status_updates_def)
next
  let ?jobId = "''job-'' @ show_nat (next_job w)"
  let ?job = "\<lparr>source' = websiteCode scrapingJob, status = pending,
                config = Some (JobConfig (url scrapingJob) (websiteCode scrapingJob)
                                 (exporters scrapingJob) ''api''),
                itemsFound = 0, itemsProcessed = 0, errors = None, startedAt = None,
                completedAt = None, duration = None\<rparr>"
  let ?w1 = "w\<lparr>scrapingJobs := (scrapingJobs w)(?jobId \<mapsto> ?job), next_job := Suc (next_job w)\<rparr>"
  have created: "JobManagementService_createScrapingJob (websiteCode scrapingJob) pending
          (Some (JobConfig (url scrapingJob) (websiteCode scrapingJob)
                   (exporters scrapingJob) ''api'')) None w = (Inr ?jobId, ?w1)"
    by (simp add: JobManagementService_createScrapingJob_def Let_def)
  from processScrapingJob_unresolved [OF assms, of ?jobId ?w1]
  obtain e where "processScrapingJob reg ?jobId scrapingJob ?w1 = (Inl e, ?w1)" ..
  then show "case createScrapingJob reg scrapingJob w of
          (created, w') \<Rightarrow>
            created = Inr ?jobId
            \<and> (\<exists>job. scrapingJobs w' ?jobId = Some job
                  \<and> status job = pending \<and> startedAt job = None \<and> completedAt job = None
                  \<and> errors job = None)
            \<and> ?jobId \<notin> runningJobs w'
            \<and> trace w' = trace w"
    by (simp add: createScrapingJob_def io_bind_def created startBackgroundJob_def Let_def)
qed

theorem unresolved_job_stays_pending_witness:
  "(ScraperFactory_scrapers (demo_registries demo_scraper)
        (websiteCode (demo_request\<lparr>exporters := [''database'', ''csv'']\<rparr>)) = None
      \<or> (\<exists>exporterType \<in> set (exporters (demo_request\<lparr>exporters := [''database'', ''csv'']\<rparr>)).
            ExporterFactory_exporters (demo_registries demo_scraper) exporterType = None))
   \<and> map_option status
        (scrapingJobs (snd (startBackgroundJob (demo_registries demo_scraper) ''job-0''
                              (demo_request\<lparr>exporters := [''database'', ''csv'']\<rparr>)
                              (demo_world pending))) ''job-0'') = Some pending
   \<and> ''job-0'' \<notin> runningJobs (snd (startBackgroundJob (demo_registries demo_scraper) ''job-0''
                              (demo_request\<lparr>exporters := [''database'', ''csv'']\<rparr>)
                              (demo_world pending)))"
proof -
  let ?req = "demo_request\<lparr>exporters := [''database'', ''csv'']\<rparr>"
  have h: "ScraperFactory_scrapers (demo_registries demo_scraper) (websiteCode ?req) = None
      \<or> (\<exists>exporterType \<in> set (exporters ?req).
            ExporterFactory_exporters (demo_registries demo_scraper) exporterType = None)"
    by (simp add: demo_registries_def)
  have st: "map_option status (scrapingJobs (demo_world pending) ''job-0'') = Some pending"
    by (simp add: demo_world_def demo_job_def)
  from unresolved_job_stays_pending [OF h, of "''job-0''" "demo_world pending"] h st
  show ?thesis
    by (auto split: prod.splits)
qed

section \<open>Status updates\<close>

lemma status_updates_append [simp]:
  "status_updates (xs @ ys) = status_updates xs @ status_updates ys"
  by (simp add: status_updates_def)

lemma status_updates_Nil [simp]: "status_updates [] = []"
  by (simp add: status_updates_def)

lemma status_updates_Cons [simp]:
  "status_updates (ev # evs) = status_of ev @ status_updates evs"
  by (simp add: status_updates_def)

lemma export_events_status [simp]:
  "status_updates (export_events jobId properties exporterList) = []"
  by (induction exporterList)
    (simp_all add: export_events_def export_failed_entry_def split: sum.splits)

lemma page_events_status [simp]:
  "status_updates (page_events scraper exporterList jobId scrapingJob totalPages p) = []"
  by (simp add: page_events_def split: sum.splits)

lemma loop_events_status [simp]:
  "status_updates (loop_events scraper exporterList jobId scrapingJob totalPages pageNum) = []"
proof -
  have "status_updates (concat (map f ps)) = []" if "\<And>p. status_updates (f p) = []"
    for f :: "int \<Rightarrow> event list" and ps
    using that by (induction ps) simp_all
  then show ?thesis
    by (simp add: loop_events_def)
qed

text \<open>
  C5, as the code has it. \<^verbatim>\<open>updateScrapingJob\<close> does not look at the stored status:
  for a stored job, terminal or not, it does not throw, the stored status becomes the
  status the update carries (it stays when the update carries none), and the other jobs
  are untouched. A terminal status stays because of the caller: a run of
  \<^verbatim>\<open>processScrapingJob\<close> on a stored job writes \<^verbatim>\<open>running\<close> and then exactly one of
  \<^verbatim>\<open>completed\<close> and \<^verbatim>\<open>failed\<close>, and nothing after it.
\<close>

theorem updateScrapingJob_overwrites_status:
  assumes "scrapingJobs w jobId = Some job"
  shows
    "(case updateScrapingJob jobId updates w of
        (thrown, w') \<Rightarrow>
          thrown = Inr ()
          \<and> (\<exists>job'. scrapingJobs w' jobId = Some job'
                \<and> status job' = (case status' updates of Some s \<Rightarrow> s | None \<Rightarrow> status job))
          \<and> (\<forall>other. other \<noteq> jobId \<longrightarrow> scrapingJobs w' other = scrapingJobs w other))
     \<and> (getExporters reg (exporters scrapingJob) = Inr exporterList
          \<and> getScraper reg (websiteCode scrapingJob) = Inr scraper \<longrightarrow>
         status_updates (events_of w (snd (processScrapingJob reg jobId scrapingJob w)))
           \<in> {[Some running, Some completed], [Some running, Some failed]})"
proof (intro conjI impI)
  show "case updateScrapingJob jobId updates w of
          (thrown, w') \<Rightarrow>
            thrown = Inr ()
            \<and> (\<exists>job'. scrapingJobs w' jobId = Some job'
                  \<and> status job' = (case status' updates of Some s \<Rightarrow> s | None \<Rightarrow> status job))
            \<and> (\<forall>other. other \<noteq> jobId \<longrightarrow> scrapingJobs w' other = scrapingJobs w other)"
    by (simp add: updateScrapingJob_existing [OF assms] apply_update_def)
next
  assume res: "getExporters reg (exporters scrapingJob) = Inr exporterList
          \<and> getScraper reg (websiteCode scrapingJob) = Inr scraper"
  then have r1: "getExporters reg (exporters scrapingJob) = Inr exporterList"
    and r2: "getScraper reg (websiteCode scrapingJob) = Inr scraper"
    by simp_all
  note resolved = processScrapingJob_resolved [OF r1 r2]
  show "status_updates (events_of w (snd (processScrapingJob reg jobId scrapingJob w)))
           \<in> {[Some running, Some completed], [Some running, Some failed]}"
  proof (cases "initialize scraper")
    case (Some e)
    with assms show ?thesis
      by (simp add: resolved job_body_initialize_throws job_started_entry_def
          job_failed_entry_def running_update_def failed_update_def)
  next
    case None
    show ?thesis
    proof (cases "getTotalPages scraper (url scrapingJob)")
      case (Inl e)
      with None assms show ?thesis
        by (simp add: resolved job_body_getTotalPages_throws job_started_entry_def
            job_failed_entry_def running_update_def failed_update_def)
    next
      case (Inr totalPages)
      with None assms show ?thesis
        by (simp add: resolved job_body_completes job_started_entry_def
            job_completed_entry_def running_update_def completed_update_def)
    qed
  qed
qed

theorem updateScrapingJob_overwrites_status_witness:
  "scrapingJobs (demo_world completed) ''job-0'' = Some (demo_job completed)
   \<and> fst (updateScrapingJob ''job-0''
             \<lparr>status' = None, itemsFound' = Some 7, itemsProcessed' = None, errors' = None,
              duration' = None\<rparr> (demo_world completed)) = Inr ()
   \<and> map_option status
        (scrapingJobs (snd (updateScrapingJob ''job-0''
             \<lparr>status' = None, itemsFound' = Some 7, itemsProcessed' = None, errors' = None,
              duration' = None\<rparr> (demo_world completed))) ''job-0'') = Some completed"
proof -
  have st: "status (demo_job completed) = completed"
    by (simp add: demo_job_def)
  from updateScrapingJob_overwrites_status [OF demo_job_found [of completed], THEN conjunct1,
      of "\<lparr>status' = None, itemsFound' = Some 7, itemsProcessed' = None, errors' = None,
           duration' = None\<rparr>"] st demo_job_found [of completed]
  show ?thesis
    by (auto split: prod.splits)
qed

text \<open>
  The claim C5 as it is written fails: an update with status \<^verbatim>\<open>running\<close> of a job stored
  as \<^verbatim>\<open>completed\<close> is applied, not ignored.
\<close>

theorem terminal_status_is_overwritten:
  "map_option status (scrapingJobs (demo_world completed) ''job-0'') = Some completed
   \<and> fst (updateScrapingJob ''job-0'' running_update (demo_world completed)) = Inr ()
   \<and> map_option status
        (scrapingJobs (snd (updateScrapingJob ''job-0'' running_update (demo_world completed)))
           ''job-0'') = Some running
   \<and> snd (updateScrapingJob ''job-0'' running_update (demo_world completed)) \<noteq> demo_world completed"
proof -
  have "map_option status
        (scrapingJobs (snd (updateScrapingJob ''job-0'' running_update (demo_world completed)))
           ''job-0'') = Some running"
    by (simp add: updateScrapingJob_existing [OF demo_job_found] apply_update_running)
  moreover have "map_option status (scrapingJobs (demo_world completed) ''job-0'') = Some completed"
    by (simp add: demo_world_def demo_job_def)
  moreover have "fst (updateScrapingJob ''job-0'' running_update (demo_world completed)) = Inr ()"
    by (simp add: updateScrapingJob_existing [OF demo_job_found])
  ultimately show ?thesis
    by auto
qed

end
